theory Spec2Isabelle
  imports Complex_Main
begin

section \<open>JavaScript numbers\<close>

text \<open>
  A JavaScript Number is modelled as a real number extended with the three special values
  \<open>Infinity\<close>, \<open>-Infinity\<close> and \<open>NaN\<close>. The special values follow IEEE 754: a comparison
  with \<open>NaN\<close> is false, \<open>x / 0\<close> is an infinity for \<open>x \<noteq> 0\<close> and \<open>NaN\<close> for \<open>x = 0\<close>,
  \<open>Infinity - Infinity\<close> is \<open>NaN\<close>. The sign of zero is not modelled (a zero divisor is
  \<open>+0\<close>). There are two sets of operations: the exact ones (\<open>js_add\<close>, \<open>js_sub\<close>, \<open>js_mul\<close>,
  \<open>js_div\<close>), which do not round, and the double-precision ones (\<open>d_add\<close>, \<open>d_sub\<close>,
  \<open>d_mul\<close>, \<open>d_div\<close>), which round the exact result to the nearest double as IEEE 754
  does. \<open>getEMA\<close>, whose values the properties compare with the prices it is given, is
  written with the double-precision operations; the other functions, whose results the
  properties relate to thresholds, defaults and values they computed themselves, are
  written with the exact ones.
\<close>

datatype jsnum = Fin real | PosInf | NegInf | NaN

fun js_neg :: "jsnum \<Rightarrow> jsnum" where
  "js_neg (Fin a) = Fin (- a)"
| "js_neg PosInf = NegInf"
| "js_neg NegInf = PosInf"
| "js_neg NaN = NaN"

fun js_add :: "jsnum \<Rightarrow> jsnum \<Rightarrow> jsnum" where
  "js_add NaN _ = NaN"
| "js_add _ NaN = NaN"
| "js_add (Fin a) (Fin b) = Fin (a + b)"
| "js_add PosInf NegInf = NaN"
| "js_add NegInf PosInf = NaN"
| "js_add PosInf _ = PosInf"
| "js_add _ PosInf = PosInf"
| "js_add NegInf _ = NegInf"
| "js_add _ NegInf = NegInf"

definition js_sub :: "jsnum \<Rightarrow> jsnum \<Rightarrow> jsnum" where
  "js_sub a b = js_add a (js_neg b)"

text \<open>The product of an infinity with a finite factor takes the sign of the factor.\<close>

fun inf_times :: "jsnum \<Rightarrow> real \<Rightarrow> jsnum" where
  "inf_times i a = (if a = 0 then NaN else if 0 < a then i else js_neg i)"

fun js_mul :: "jsnum \<Rightarrow> jsnum \<Rightarrow> jsnum" where
  "js_mul NaN _ = NaN"
| "js_mul _ NaN = NaN"
| "js_mul (Fin a) (Fin b) = Fin (a * b)"
| "js_mul (Fin a) i = inf_times i a"
| "js_mul i (Fin b) = inf_times i b"
| "js_mul PosInf PosInf = PosInf"
| "js_mul NegInf NegInf = PosInf"
| "js_mul PosInf NegInf = NegInf"
| "js_mul NegInf PosInf = NegInf"

fun js_div :: "jsnum \<Rightarrow> jsnum \<Rightarrow> jsnum" where
  "js_div NaN _ = NaN"
| "js_div _ NaN = NaN"
| "js_div (Fin a) (Fin b) =
     (if b \<noteq> 0 then Fin (a / b)
      else if 0 < a then PosInf else if a < 0 then NegInf else NaN)"
| "js_div (Fin a) _ = Fin 0"
| "js_div i (Fin b) = (if 0 \<le> b then i else js_neg i)"
| "js_div _ _ = NaN"

fun js_lt :: "jsnum \<Rightarrow> jsnum \<Rightarrow> bool" where
  "js_lt NaN _ = False"
| "js_lt _ NaN = False"
| "js_lt (Fin a) (Fin b) = (a < b)"
| "js_lt _ NegInf = False"
| "js_lt NegInf _ = True"
| "js_lt PosInf _ = False"
| "js_lt _ PosInf = True"

definition js_gt :: "jsnum \<Rightarrow> jsnum \<Rightarrow> bool" where
  "js_gt a b = js_lt b a"

fun js_le :: "jsnum \<Rightarrow> jsnum \<Rightarrow> bool" where
  "js_le NaN _ = False"
| "js_le _ NaN = False"
| "js_le a b = (a = b \<or> js_lt a b)"

definition js_ge :: "jsnum \<Rightarrow> jsnum \<Rightarrow> bool" where
  "js_ge a b = js_le b a"

fun js_abs :: "jsnum \<Rightarrow> jsnum" where
  "js_abs (Fin a) = Fin \<bar>a\<bar>"
| "js_abs NaN = NaN"
| "js_abs _ = PosInf"

text \<open>\<open>Math.min\<close> and \<open>Math.max\<close> return \<open>NaN\<close> as soon as one argument is \<open>NaN\<close>.\<close>

fun js_min :: "jsnum \<Rightarrow> jsnum \<Rightarrow> jsnum" where
  "js_min NaN _ = NaN"
| "js_min _ NaN = NaN"
| "js_min a b = (if js_lt b a then b else a)"

fun js_max :: "jsnum \<Rightarrow> jsnum \<Rightarrow> jsnum" where
  "js_max NaN _ = NaN"
| "js_max _ NaN = NaN"
| "js_max a b = (if js_lt a b then b else a)"

fun js_sqrt :: "jsnum \<Rightarrow> jsnum" where
  "js_sqrt (Fin a) = (if a < 0 then NaN else Fin (sqrt a))"
| "js_sqrt PosInf = PosInf"
| "js_sqrt _ = NaN"

fun js_isNaN :: "jsnum \<Rightarrow> bool" where
  "js_isNaN NaN = True"
| "js_isNaN _ = False"

text \<open>Truthiness of a number, as \<open>||\<close> and \<open>!\<close> see it: \<open>0\<close> and \<open>NaN\<close> are falsy.\<close>

fun js_truthy :: "jsnum \<Rightarrow> bool" where
  "js_truthy (Fin a) = (a \<noteq> 0)"
| "js_truthy NaN = False"
| "js_truthy _ = True"

subsection \<open>Rounding to double precision\<close>

text \<open>
  \<open>ulp a\<close> is the spacing of the doubles around \<open>a > 0\<close>: the power of two \<open>u\<close> with
  \<open>2^52 * u \<le> a < 2^53 * u\<close>, between \<open>2^-1074\<close> (the subnormal spacing) and \<open>2^971\<close>. It
  is found by halving from \<open>2^971\<close>, at most 2045 times.
\<close>

fun ulp_from :: "nat \<Rightarrow> real \<Rightarrow> real \<Rightarrow> real" where
  "ulp_from 0 c a = c"
| "ulp_from (Suc k) c a = (if 2 ^ 52 * c \<le> a then c else ulp_from k (c / 2) a)"

definition ulp :: "real \<Rightarrow> real" where
  "ulp a = ulp_from 2045 (2 ^ 971) a"

text \<open>Rounding to the nearest integer, a tie going to the even one.\<close>

definition rne :: "real \<Rightarrow> real" where
  "rne q = (let n = \<lfloor>q\<rfloor>; r = q - of_int n
            in if r < 1 / 2 then of_int n
               else if 1 / 2 < r then of_int (n + 1)
               else if even n then of_int n else of_int (n + 1))"

definition round_pos :: "real \<Rightarrow> real" where
  "round_pos a = rne (a / ulp a) * ulp a"

text \<open>
  The nearest double of a number; a finite value whose rounding reaches \<open>2^1024\<close>
  overflows to an infinity.
\<close>

fun rnd :: "jsnum \<Rightarrow> jsnum" where
  "rnd (Fin x) =
     (if x = 0 then Fin 0
      else if 2 ^ 1024 \<le> round_pos \<bar>x\<bar> then (if 0 < x then PosInf else NegInf)
      else Fin (sgn x * round_pos \<bar>x\<bar>))"
| "rnd PosInf = PosInf"
| "rnd NegInf = NegInf"
| "rnd NaN = NaN"

definition d_add :: "jsnum \<Rightarrow> jsnum \<Rightarrow> jsnum" where
  "d_add a b = rnd (js_add a b)"

definition d_sub :: "jsnum \<Rightarrow> jsnum \<Rightarrow> jsnum" where
  "d_sub a b = rnd (js_sub a b)"

definition d_mul :: "jsnum \<Rightarrow> jsnum \<Rightarrow> jsnum" where
  "d_mul a b = rnd (js_mul a b)"

definition d_div :: "jsnum \<Rightarrow> jsnum \<Rightarrow> jsnum" where
  "d_div a b = rnd (js_div a b)"

section \<open>Accuracy tracker (background.js)\<close>

text \<open>
  \<open>state.accuracyStats\<close> holds the two counters; \<open>chrome.storage.local.set\<close> writes a
  copy of them, kept here in \<open>storedStats\<close>.
\<close>

record accuracyStats =
  totalSignals :: nat
  correctSignals :: nat

record tracker_state =
  stats :: accuracyStats
  storedStats :: "accuracyStats option"

definition initial_state :: tracker_state where
  "initial_state = \<lparr>stats = \<lparr>totalSignals = 0, correctSignals = 0\<rparr>, storedStats = None\<rparr>"

definition trackSignalAccuracy :: "tracker_state \<Rightarrow> string \<Rightarrow> string \<Rightarrow> tracker_state \<times> jsnum" where
  "trackSignalAccuracy st signalType result =
     (let s1 = (stats st)\<lparr>totalSignals := totalSignals (stats st) + 1\<rparr>;
          s2 = (if (signalType = ''buy'' \<and> result = ''win'') \<or>
                   (signalType = ''sell'' \<and> result = ''win'')
                then s1\<lparr>correctSignals := correctSignals s1 + 1\<rparr> else s1)
      in (\<lparr>stats = s2, storedStats = Some s2\<rparr>,
          js_mul (js_div (Fin (real (correctSignals s2))) (Fin (real (totalSignals s2))))
                 (Fin 100)))"

section \<open>Candles and indicator results\<close>

text \<open>
  A candle object. The type parameter is the type of a field: \<open>jsnum\<close> for the candles the
  indicators and the pattern detector read, \<open>jsnum option\<close> while candles are being
  extracted, where a field may still be \<open>undefined\<close> (\<open>None\<close>).
\<close>

record 'a candle =
  timestamp :: 'a
  open_c :: 'a
  high :: 'a
  low :: 'a
  close :: 'a
  volume_c :: 'a

record ema_result =
  ema20 :: "jsnum option"
  ema50 :: "jsnum option"
  crossover :: string

record macd_result =
  line :: jsnum
  signal :: jsnum
  histogram :: jsnum
  previousHistogram :: jsnum

record rsi_result =
  rsi_value :: jsnum

record bb_result =
  upper :: jsnum
  middle :: jsnum
  lower :: jsnum
  width :: jsnum
  position :: string

record volume_result =
  current :: jsnum
  average :: jsnum
  trend :: string

record indicators =
  ema :: ema_result
  macd :: macd_result
  rsi :: rsi_result
  bb :: bb_result
  volume :: volume_result

datatype js_error = RangeError | TypeError | SyntaxError | NetworkError | GeminiApiError nat

text \<open>\<open>a || d\<close> on numbers, and on values that may be \<open>undefined\<close>.\<close>

definition num_or :: "jsnum \<Rightarrow> jsnum \<Rightarrow> jsnum" where
  "num_or a d = (if js_truthy a then a else d)"

fun opt_or :: "jsnum option \<Rightarrow> jsnum option \<Rightarrow> jsnum option" where
  "opt_or (Some a) d = (if js_truthy a then Some a else d)"
| "opt_or None d = d"

fun field_or :: "jsnum option \<Rightarrow> jsnum \<Rightarrow> jsnum" where
  "field_or (Some a) d = (if js_truthy a then a else d)"
| "field_or None d = d"

fun str_or :: "string option \<Rightarrow> string \<Rightarrow> string" where
  "str_or (Some s) d = (if s \<noteq> [] then s else d)"
| "str_or None d = d"

section \<open>Indicator library (utils)\<close>

definition getEmptyIndicators :: indicators where
  "getEmptyIndicators =
     \<lparr>ema = \<lparr>ema20 = Some (Fin 0), ema50 = Some (Fin 0), crossover = ''none''\<rparr>,
      macd = \<lparr>line = Fin 0, signal = Fin 0, histogram = Fin 0, previousHistogram = Fin 0\<rparr>,
      rsi = \<lparr>rsi_value = Fin 50\<rparr>,
      bb = \<lparr>upper = Fin 0, middle = Fin 0, lower = Fin 0, width = Fin 0, position = ''middle''\<rparr>,
      volume = \<lparr>current = Fin 0, average = Fin 0, trend = ''stable''\<rparr>\<rparr>"

text \<open>
  The loop of \<open>getEMA\<close> that pushes one value per remaining price. \<open>getEMA\<close> computes in
  double precision.
\<close>

fun ema_loop :: "jsnum \<Rightarrow> jsnum list \<Rightarrow> jsnum list \<Rightarrow> jsnum list" where
  "ema_loop multiplier [] emaValues = emaValues"
| "ema_loop multiplier (p # ps) emaValues =
     ema_loop multiplier ps
       (emaValues @ [d_add (d_mul (d_sub p (last emaValues)) multiplier) (last emaValues)])"

text \<open>
  \<open>Array(period - 1)\<close> raises a RangeError when \<open>period\<close> is 0; every other path returns
  an array as long as \<open>prices\<close>.
\<close>

definition getEMA :: "jsnum list \<Rightarrow> nat \<Rightarrow> js_error + jsnum list" where
  "getEMA prices period =
     (if length prices < period then Inr (map (\<lambda>_. Fin 0) prices)
      else
        let sum = foldl d_add (Fin 0) (take period prices);
            sma = d_div sum (Fin (real period));
            multiplier = d_div (Fin 2) (d_add (Fin (real period)) (Fin 1))
        in if period = 0 then Inl RangeError
           else Inr (ema_loop multiplier (drop period prices)
                       (replicate (period - 1) (Fin 0) @ [sma])))"

text \<open>\<open>xs[xs.length - 1]\<close>, which is \<open>undefined\<close> on the empty array.\<close>

definition last_elem :: "jsnum list \<Rightarrow> jsnum option" where
  "last_elem xs = (if xs = [] then None else Some (last xs))"

definition calculateEMA :: "jsnum list \<Rightarrow> ema_result" where
  "calculateEMA prices =
     (case (getEMA prices 20, getEMA prices 50) of
        (Inr e20, Inr e50) \<Rightarrow>
          (let crossover =
                 (if 52 \<le> length prices then
                    (let currentEma20 = e20 ! (length e20 - 1);
                         currentEma50 = e50 ! (length e50 - 1);
                         previousEma20 = e20 ! (length e20 - 2);
                         previousEma50 = e50 ! (length e50 - 2)
                     in if js_le previousEma20 previousEma50 \<and> js_gt currentEma20 currentEma50
                        then ''bullish''
                        else if js_ge previousEma20 previousEma50 \<and> js_lt currentEma20 currentEma50
                        then ''bearish''
                        else ''none'')
                  else ''none'')
           in \<lparr>ema20 = last_elem e20, ema50 = last_elem e50, crossover = crossover\<rparr>)
      | _ \<Rightarrow> \<lparr>ema20 = Some (Fin 0), ema50 = Some (Fin 0), crossover = ''none''\<rparr>)"

definition calculateMACD :: "jsnum list \<Rightarrow> macd_result" where
  "calculateMACD prices =
     (if length prices < 26
      then \<lparr>line = Fin 0, signal = Fin 0, histogram = Fin 0, previousHistogram = Fin 0\<rparr>
      else
        (case (getEMA prices 12, getEMA prices 26) of
           (Inr ema12, Inr ema26) \<Rightarrow>
             (let macdLine = map (\<lambda>i. if i < 25 then Fin 0 else js_sub (ema12 ! i) (ema26 ! i))
                               [0..<length prices]
              in case getEMA macdLine 9 of
                   Inr signalLine \<Rightarrow>
                     (let hist = map (\<lambda>i. if i < 33 then Fin 0
                                           else js_sub (macdLine ! i) (signalLine ! i))
                                   [0..<length prices]
                      in \<lparr>line = macdLine ! (length macdLine - 1),
                          signal = signalLine ! (length signalLine - 1),
                          histogram = hist ! (length hist - 1),
                          previousHistogram = num_or (hist ! (length hist - 2)) (Fin 0)\<rparr>)
                 | Inl _ \<Rightarrow>
                     \<lparr>line = Fin 0, signal = Fin 0, histogram = Fin 0, previousHistogram = Fin 0\<rparr>)
         | _ \<Rightarrow> \<lparr>line = Fin 0, signal = Fin 0, histogram = Fin 0, previousHistogram = Fin 0\<rparr>))"

text \<open>
  \<open>calculateRSI\<close> is only called with its default period 14. The loop over the changes
  after the first 14 updates both averages in one step.
\<close>

definition rsi_step :: "jsnum \<times> jsnum \<Rightarrow> jsnum \<times> jsnum \<Rightarrow> jsnum \<times> jsnum" where
  "rsi_step avgs gl =
     (js_div (js_add (js_mul (fst avgs) (Fin 13)) (fst gl)) (Fin 14),
      js_div (js_add (js_mul (snd avgs) (Fin 13)) (snd gl)) (Fin 14))"

definition calculateRSI :: "jsnum list \<Rightarrow> rsi_result" where
  "calculateRSI prices =
     (if length prices < 14 + 1 then \<lparr>rsi_value = Fin 50\<rparr>
      else
        let changes = map (\<lambda>i. js_sub (prices ! i) (prices ! (i - 1))) [1..<length prices];
            gains = map (\<lambda>change. if js_gt change (Fin 0) then change else Fin 0) changes;
            losses = map (\<lambda>change. if js_lt change (Fin 0) then js_abs change else Fin 0) changes;
            avgGain = js_div (foldl js_add (Fin 0) (take 14 gains)) (Fin 14);
            avgLoss = js_div (foldl js_add (Fin 0) (take 14 losses)) (Fin 14);
            avgs = foldl rsi_step (avgGain, avgLoss) (drop 14 (zip gains losses));
            rs = js_div (fst avgs) (snd avgs);
            rsi = js_sub (Fin 100) (js_div (Fin 100) (js_add (Fin 1) rs))
        in \<lparr>rsi_value = rsi\<rparr>)"

text \<open>
  \<open>calculateBollingerBands\<close> is only called with its defaults, period 20 and multiplier 2.
  \<open>smaAt\<close> is the inner loop of the SMA at index \<open>i\<close>, \<open>stdDevAt\<close> the inner loop of the
  standard deviation at index \<open>i\<close> around the mean \<open>m\<close>; \<open>Math.pow(x, 2)\<close> is \<open>x * x\<close>.
\<close>

definition smaAt :: "jsnum list \<Rightarrow> nat \<Rightarrow> jsnum" where
  "smaAt prices i =
     js_div (foldl js_add (Fin 0) (map (\<lambda>j. prices ! (i - j)) [0..<20])) (Fin 20)"

definition stdDevAt :: "jsnum list \<Rightarrow> jsnum \<Rightarrow> nat \<Rightarrow> jsnum" where
  "stdDevAt prices m i =
     js_sqrt (js_div
       (foldl js_add (Fin 0)
          (map (\<lambda>j. js_mul (js_sub (prices ! (i - j)) m) (js_sub (prices ! (i - j)) m)) [0..<20]))
       (Fin 20))"

definition calculateBollingerBands :: "jsnum list \<Rightarrow> bb_result" where
  "calculateBollingerBands prices =
     (if length prices < 20
      then \<lparr>upper = Fin 0, middle = Fin 0, lower = Fin 0, width = Fin 0, position = ''middle''\<rparr>
      else
        let sma = map (smaAt prices) [20 - 1..<length prices];
            stdDev = map (\<lambda>i. stdDevAt prices (sma ! (i - (20 - 1))) i) [20 - 1..<length prices];
            upperBand = map (\<lambda>i. js_add (sma ! i) (js_mul (Fin 2) (stdDev ! i))) [0..<length sma];
            lowerBand = map (\<lambda>i. js_sub (sma ! i) (js_mul (Fin 2) (stdDev ! i))) [0..<length sma];
            currentSMA = sma ! (length sma - 1);
            currentUpper = upperBand ! (length upperBand - 1);
            currentLower = lowerBand ! (length lowerBand - 1);
            currentPrice = prices ! (length prices - 1);
            width = js_div (js_sub currentUpper currentLower) currentSMA;
            position = (if js_ge currentPrice currentUpper then ''upper''
                        else if js_le currentPrice currentLower then ''lower''
                        else ''middle'')
        in \<lparr>upper = currentUpper, middle = currentSMA, lower = currentLower,
            width = width, position = position\<rparr>)"

text \<open>
  \<open>prices[k]\<close> read as a number: an index outside the array gives \<open>undefined\<close>, which the
  subtraction in \<open>analyzeVolume\<close> turns into \<open>NaN\<close>.
\<close>

definition num_at :: "jsnum list \<Rightarrow> int \<Rightarrow> jsnum" where
  "num_at xs k = (if 0 \<le> k \<and> k < int (length xs) then xs ! nat k else NaN)"

definition analyzeVolume :: "jsnum list \<Rightarrow> jsnum list \<Rightarrow> volume_result" where
  "analyzeVolume volumes prices =
     (if length volumes < 10 then \<lparr>current = Fin 0, average = Fin 0, trend = ''stable''\<rparr>
      else
        let sum = foldl js_add (Fin 0) (drop (length volumes - 10) volumes);
            avgVolume = js_div sum (Fin 10);
            currentVolume = volumes ! (length volumes - 1);
            trend =
              (if js_gt currentVolume (js_mul avgVolume (Fin 1.5)) then
                 (let priceChange = js_sub (num_at prices (int (length prices) - 1))
                                           (num_at prices (int (length prices) - 2))
                  in if js_gt priceChange (Fin 0) then ''increasing''
                     else if js_lt priceChange (Fin 0) then ''decreasing''
                     else ''high'')
               else if js_lt currentVolume (js_mul avgVolume (Fin 0.5)) then ''low''
               else ''stable'')
        in \<lparr>current = currentVolume, average = avgVolume, trend = trend\<rparr>)"

definition calculateAllIndicators :: "jsnum candle list \<Rightarrow> indicators" where
  "calculateAllIndicators candles =
     (if length candles < 30 then getEmptyIndicators
      else
        let closes = map close candles;
            volumes = map (\<lambda>c. num_or (volume_c c) (Fin 0)) candles
        in \<lparr>ema = calculateEMA closes, macd = calculateMACD closes, rsi = calculateRSI closes,
            bb = calculateBollingerBands closes, volume = analyzeVolume volumes closes\<rparr>)"

section \<open>Candle normalisation (utils/dataExtractor.js)\<close>

text \<open>
  One element of the raw data, by the branch of \<open>normalizeCandleData\<close> that reads it.
  Fields are numbers or absent (\<open>None\<close>).
  \<^item> \<open>RawArray xs\<close>: an array \<open>[timestamp, open, high, low, close, volume?]\<close>;
  \<^item> \<open>RawLong timestamp time open high low close volume\<close>: an object with a key \<open>open\<close>;
  \<^item> \<open>RawShort t ts o h l c v\<close>: an object with a key \<open>o\<close> and no key \<open>open\<close>;
  \<^item> \<open>RawOtherObject\<close>: an object with neither key;
  \<^item> \<open>RawNull\<close>: \<open>null\<close>, whose \<open>typeof\<close> is \<open>object\<close>, so that \<open>'open' in item\<close> raises;
  \<^item> \<open>RawPrimitive\<close>: any other value (a number, a string, \<open>undefined\<close>).
\<close>

datatype raw_item =
    RawArray "jsnum option list"
  | RawLong "jsnum option" "jsnum option" "jsnum option" "jsnum option" "jsnum option"
            "jsnum option" "jsnum option"
  | RawShort "jsnum option" "jsnum option" "jsnum option" "jsnum option" "jsnum option"
             "jsnum option" "jsnum option"
  | RawOtherObject
  | RawNull
  | RawPrimitive

definition item_at :: "jsnum option list \<Rightarrow> nat \<Rightarrow> jsnum option" where
  "item_at xs k = (if k < length xs then xs ! k else None)"

definition empty_candle :: "jsnum option candle" where
  "empty_candle = \<lparr>timestamp = None, open_c = None, high = None, low = None, close = None,
                    volume_c = None\<rparr>"

fun build_candle :: "raw_item \<Rightarrow> jsnum \<Rightarrow> js_error + jsnum option candle" where
  "build_candle (RawArray xs) ts =
     Inr \<lparr>timestamp = opt_or (item_at xs 0) (Some ts), open_c = item_at xs 1,
          high = item_at xs 2, low = item_at xs 3, close = item_at xs 4,
          volume_c = opt_or (item_at xs 5) (Some (Fin 0))\<rparr>"
| "build_candle (RawLong tstamp time opn hi lo cl vol) ts =
     Inr \<lparr>timestamp = opt_or tstamp (opt_or time (Some ts)), open_c = opn,
          high = hi, low = lo, close = cl, volume_c = opt_or vol (Some (Fin 0))\<rparr>"
| "build_candle (RawShort t tss opn hi lo cl vol) ts =
     Inr \<lparr>timestamp = opt_or t (opt_or tss (Some ts)), open_c = opn,
          high = hi, low = lo, close = cl, volume_c = opt_or vol (Some (Fin 0))\<rparr>"
| "build_candle RawOtherObject ts = Inr empty_candle"
| "build_candle RawNull ts = Inl TypeError"
| "build_candle RawPrimitive ts = Inr empty_candle"

text \<open>\<open>isNaN\<close> of a field; \<open>isNaN(undefined)\<close> is true.\<close>

fun isNaN_field :: "jsnum option \<Rightarrow> bool" where
  "isNaN_field None = True"
| "isNaN_field (Some a) = js_isNaN a"

definition isValidCandle :: "jsnum option candle \<Rightarrow> bool" where
  "isValidCandle candle =
     (open_c candle \<noteq> None \<and> high candle \<noteq> None \<and> low candle \<noteq> None \<and> close candle \<noteq> None \<and>
      \<not> isNaN_field (open_c candle) \<and> \<not> isNaN_field (high candle) \<and>
      \<not> isNaN_field (low candle) \<and> \<not> isNaN_field (close candle))"

definition getTimeframeInMs :: "string \<Rightarrow> jsnum" where
  "getTimeframeInMs timeframe =
     (if timeframe = ''M1'' then Fin (60 * 1000)
      else if timeframe = ''M5'' then Fin (5 * 60 * 1000)
      else if timeframe = ''M15'' then Fin (15 * 60 * 1000)
      else Fin (60 * 1000))"

fun normalize_loop ::
  "raw_item list \<Rightarrow> jsnum \<Rightarrow> jsnum \<Rightarrow> jsnum option candle list
     \<Rightarrow> js_error + jsnum option candle list" where
  "normalize_loop [] ts interval normalizedData = Inr normalizedData"
| "normalize_loop (item # rest) ts interval normalizedData =
     (case build_candle item ts of
        Inl e \<Rightarrow> Inl e
      | Inr candle \<Rightarrow>
          normalize_loop rest (js_add ts interval) interval
            (if isValidCandle candle then normalizedData @ [candle] else normalizedData))"

text \<open>\<open>now\<close> is the value of \<open>Date.now()\<close>. An exception in the loop is caught and gives \<open>[]\<close>.\<close>

definition normalizeCandleData :: "raw_item list \<Rightarrow> string \<Rightarrow> real \<Rightarrow> jsnum option candle list" where
  "normalizeCandleData data timeframe now =
     (if data = [] then []
      else
        let interval = getTimeframeInMs timeframe;
            ts = js_sub (Fin now) (js_mul (Fin (real (length data))) interval)
        in case normalize_loop data ts interval [] of
             Inl e \<Rightarrow> []
           | Inr normalizedData \<Rightarrow> normalizedData)"

text \<open>
  The invariant of the data model, \<open>low \<le> min(open, close) \<le> max(open, close) \<le> high\<close>,
  on a candle whose four prices are finite numbers; it is false of any other candle.
\<close>

definition ohlc_invariant :: "jsnum option candle \<Rightarrow> bool" where
  "ohlc_invariant c =
     (case (open_c c, high c, low c, close c) of
        (Some (Fin opn), Some (Fin h), Some (Fin l), Some (Fin cl)) \<Rightarrow>
          l \<le> min opn cl \<and> max opn cl \<le> h
      | _ \<Rightarrow> False)"

section \<open>Signal scorer (background.js)\<close>

record ai_analysis =
  prediction :: string
  confidence :: jsnum

record signal_details =
  d_ema :: string
  d_macd :: string
  d_rsi :: jsnum
  d_bb :: string
  d_volume :: string

record signal_result =
  signalType :: string
  strength :: jsnum
  recommendation :: string
  aiConfidence :: jsnum
  details :: signal_details

text \<open>The value of \<open>signalPoints\<close> after each block of \<open>generateSignal\<close>.\<close>

definition signalPoints_ema :: "indicators \<Rightarrow> jsnum" where
  "signalPoints_ema ind =
     (if crossover (ema ind) = ''bullish'' then js_add (Fin 0) (Fin 20)
      else if crossover (ema ind) = ''bearish'' then js_sub (Fin 0) (Fin 20)
      else Fin 0)"

definition signalPoints_macd :: "indicators \<Rightarrow> jsnum" where
  "signalPoints_macd ind =
     (let signalPoints = signalPoints_ema ind
      in if js_gt (histogram (macd ind)) (Fin 0) \<and>
            js_gt (histogram (macd ind)) (previousHistogram (macd ind))
         then js_add signalPoints (Fin 20)
         else if js_lt (histogram (macd ind)) (Fin 0) \<and>
                 js_lt (histogram (macd ind)) (previousHistogram (macd ind))
         then js_sub signalPoints (Fin 20)
         else signalPoints)"

definition signalPoints_rsi :: "indicators \<Rightarrow> jsnum" where
  "signalPoints_rsi ind =
     (let signalPoints = signalPoints_macd ind
      in if js_lt (rsi_value (rsi ind)) (Fin 30) then js_add signalPoints (Fin 15)
         else if js_gt (rsi_value (rsi ind)) (Fin 70) then js_sub signalPoints (Fin 15)
         else signalPoints)"

definition signalPoints_bb :: "indicators \<Rightarrow> jsnum" where
  "signalPoints_bb ind =
     (let signalPoints = signalPoints_rsi ind
      in if position (bb ind) = ''lower'' then js_add signalPoints (Fin 15)
         else if position (bb ind) = ''upper'' then js_sub signalPoints (Fin 15)
         else signalPoints)"

definition signalPoints_volume :: "indicators \<Rightarrow> jsnum" where
  "signalPoints_volume ind =
     (let signalPoints = signalPoints_bb ind
      in if trend (volume ind) = ''increasing''
         then (if js_gt signalPoints (Fin 0) then js_add signalPoints (Fin 10)
               else if js_lt signalPoints (Fin 0) then js_sub signalPoints (Fin 10)
               else signalPoints)
         else signalPoints)"

definition signalPoints_ai :: "indicators \<Rightarrow> ai_analysis \<Rightarrow> jsnum" where
  "signalPoints_ai ind aiAnalysis =
     (let signalPoints = signalPoints_volume ind
      in if prediction aiAnalysis = ''up''
         then js_add signalPoints (js_mul (Fin 20) (confidence aiAnalysis))
         else if prediction aiAnalysis = ''down''
         then js_sub signalPoints (js_mul (Fin 20) (confidence aiAnalysis))
         else signalPoints)"

definition generateSignal :: "indicators \<Rightarrow> ai_analysis \<Rightarrow> signal_result" where
  "generateSignal ind aiAnalysis =
     (let signalPoints = signalPoints_ai ind aiAnalysis;
          det = \<lparr>d_ema = crossover (ema ind),
                 d_macd = (if js_gt (histogram (macd ind)) (Fin 0) then ''bullish'' else ''bearish''),
                 d_rsi = rsi_value (rsi ind), d_bb = position (bb ind),
                 d_volume = trend (volume ind)\<rparr>
      in if js_gt signalPoints (Fin 30)
         then \<lparr>signalType = ''buy'', strength = js_min (js_abs signalPoints) (Fin 100),
               recommendation = ''Buy'', aiConfidence = confidence aiAnalysis, details = det\<rparr>
         else if js_lt signalPoints (Fin (- 30))
         then \<lparr>signalType = ''sell'', strength = js_min (js_abs signalPoints) (Fin 100),
               recommendation = ''Sell'', aiConfidence = confidence aiAnalysis, details = det\<rparr>
         else \<lparr>signalType = ''neutral'', strength = js_min (js_abs signalPoints) (Fin 100),
               recommendation = ''Hold'', aiConfidence = confidence aiAnalysis, details = det\<rparr>)"

section \<open>Pattern detector (AI analysis module)\<close>

record pattern_result =
  score :: jsnum
  confidence_p :: jsnum

definition detectTrend :: "jsnum candle list \<Rightarrow> string" where
  "detectTrend candles =
     (if length candles < 10 then ''sideways''
      else
        let recentCandles = drop (length candles - 10) candles;
            firstPrice = close (recentCandles ! 0);
            lastPrice = close (recentCandles ! (length recentCandles - 1));
            priceChange = js_mul (js_div (js_sub lastPrice firstPrice) firstPrice) (Fin 100)
        in if js_gt priceChange (Fin 2) then ''uptrend''
           else if js_lt priceChange (Fin (- 2)) then ''downtrend''
           else ''sideways'')"

text \<open>
  The three checks after the doji test. Each gives \<open>Some\<close> result where the source returns
  and \<open>None\<close> where it falls through to the next check.
\<close>

definition hammer_check :: "jsnum candle list \<Rightarrow> jsnum candle \<Rightarrow> pattern_result option" where
  "hammer_check candles lastCandle =
     (let bodySize = js_abs (js_sub (close lastCandle) (open_c lastCandle));
          lowerWick = js_sub (js_min (open_c lastCandle) (close lastCandle)) (low lastCandle);
          upperWick = js_sub (high lastCandle) (js_max (open_c lastCandle) (close lastCandle))
      in if js_gt lowerWick (js_mul bodySize (Fin 2)) \<and> js_lt upperWick (js_mul bodySize (Fin 0.5))
         then (let trend = detectTrend candles
               in if trend = ''downtrend'' then Some \<lparr>score = Fin 10, confidence_p = Fin 0.04\<rparr>
                  else if trend = ''uptrend'' then Some \<lparr>score = Fin (- 10), confidence_p = Fin 0.04\<rparr>
                  else None)
         else None)"

definition engulfing_check :: "jsnum candle \<Rightarrow> jsnum candle \<Rightarrow> pattern_result option" where
  "engulfing_check lastCandle previousCandle =
     (let lastBullish = js_gt (close lastCandle) (open_c lastCandle);
          prevBullish = js_gt (close previousCandle) (open_c previousCandle)
      in if lastBullish \<and> \<not> prevBullish
         then (if js_lt (open_c lastCandle) (close previousCandle) \<and>
                  js_gt (close lastCandle) (open_c previousCandle)
               then Some \<lparr>score = Fin 10, confidence_p = Fin 0.05\<rparr> else None)
         else if \<not> lastBullish \<and> prevBullish
         then (if js_gt (open_c lastCandle) (close previousCandle) \<and>
                  js_lt (close lastCandle) (open_c previousCandle)
               then Some \<lparr>score = Fin (- 10), confidence_p = Fin 0.05\<rparr> else None)
         else None)"

definition three_check :: "jsnum candle list \<Rightarrow> pattern_result option" where
  "three_check recent =
     (let lastCandle = recent ! (length recent - 1);
          previousCandle = recent ! (length recent - 2);
          lastBullish = js_gt (close lastCandle) (open_c lastCandle);
          prevBullish = js_gt (close previousCandle) (open_c previousCandle)
      in if 3 \<le> length recent
         then (let thirdLastCandle = recent ! (length recent - 3);
                   crows =
                     (if \<not> lastBullish \<and> \<not> prevBullish \<and>
                         js_lt (close thirdLastCandle) (open_c thirdLastCandle)
                      then (if js_lt (close lastCandle) (close previousCandle) \<and>
                               js_lt (close previousCandle) (close thirdLastCandle)
                            then Some \<lparr>score = Fin (- 10), confidence_p = Fin 0.05\<rparr>
                            else None)
                      else None)
               in if lastBullish \<and> prevBullish \<and>
                     js_gt (close thirdLastCandle) (open_c thirdLastCandle)
                  then (if js_gt (close lastCandle) (close previousCandle) \<and>
                           js_gt (close previousCandle) (close thirdLastCandle)
                        then Some \<lparr>score = Fin 10, confidence_p = Fin 0.05\<rparr>
                        else crows)
                  else crows)
         else None)"

definition detectCandlestickPatterns :: "jsnum candle list \<Rightarrow> pattern_result" where
  "detectCandlestickPatterns candles =
     (if length candles < 5 then \<lparr>score = Fin 0, confidence_p = Fin 0\<rparr>
      else
        let recent = drop (length candles - 5) candles;
            lastCandle = recent ! (length recent - 1);
            bodySize = js_abs (js_sub (close lastCandle) (open_c lastCandle));
            totalSize = js_sub (high lastCandle) (low lastCandle)
        in if js_lt (js_div bodySize totalSize) (Fin 0.1)
           then \<lparr>score = Fin 0, confidence_p = Fin 0.02\<rparr>
           else
             (case hammer_check candles lastCandle of
                Some r \<Rightarrow> r
              | None \<Rightarrow>
                  (case engulfing_check lastCandle (recent ! (length recent - 2)) of
                     Some r \<Rightarrow> r
                   | None \<Rightarrow>
                       (case three_check recent of
                          Some r \<Rightarrow> r
                        | None \<Rightarrow> \<lparr>score = Fin 0, confidence_p = Fin 0\<rparr>))))"

section \<open>Prediction fusion\<close>

record prediction_result = ai_analysis +
  source :: string

text \<open>
  The pair \<open>(predictionScore, confidenceScore)\<close> after each numbered block of
  \<open>getPatternBasedPrediction\<close>.
\<close>

definition pattern_ema :: "indicators \<Rightarrow> jsnum \<times> jsnum" where
  "pattern_ema ind =
     (if crossover (ema ind) = ''bullish'' then (js_add (Fin 0) (Fin 25), js_add (Fin 0.5) (Fin 0.1))
      else if crossover (ema ind) = ''bearish'' then (js_sub (Fin 0) (Fin 25), js_add (Fin 0.5) (Fin 0.1))
      else (Fin 0, Fin 0.5))"

definition pattern_macd :: "indicators \<Rightarrow> jsnum \<times> jsnum" where
  "pattern_macd ind =
     (let (predictionScore, confidenceScore) = pattern_ema ind
      in if js_gt (histogram (macd ind)) (Fin 0) \<and>
            js_gt (histogram (macd ind)) (previousHistogram (macd ind))
         then (js_add predictionScore (Fin 20), js_add confidenceScore (Fin 0.08))
         else if js_lt (histogram (macd ind)) (Fin 0) \<and>
                 js_lt (histogram (macd ind)) (previousHistogram (macd ind))
         then (js_sub predictionScore (Fin 20), js_add confidenceScore (Fin 0.08))
         else (predictionScore, confidenceScore))"

definition pattern_rsi :: "indicators \<Rightarrow> jsnum \<times> jsnum" where
  "pattern_rsi ind =
     (let (predictionScore, confidenceScore) = pattern_macd ind
      in if js_lt (rsi_value (rsi ind)) (Fin 30)
         then (js_add predictionScore (Fin 15), js_add confidenceScore (Fin 0.06))
         else if js_gt (rsi_value (rsi ind)) (Fin 70)
         then (js_sub predictionScore (Fin 15), js_add confidenceScore (Fin 0.06))
         else (predictionScore, confidenceScore))"

definition pattern_bb :: "indicators \<Rightarrow> jsnum \<times> jsnum" where
  "pattern_bb ind =
     (let (predictionScore, confidenceScore) = pattern_rsi ind
      in if position (bb ind) = ''lower''
         then (js_add predictionScore (Fin 20), js_add confidenceScore (Fin 0.08))
         else if position (bb ind) = ''upper''
         then (js_sub predictionScore (Fin 20), js_add confidenceScore (Fin 0.08))
         else (predictionScore, confidenceScore))"

definition pattern_volume :: "indicators \<Rightarrow> jsnum \<times> jsnum" where
  "pattern_volume ind =
     (let (predictionScore, confidenceScore) = pattern_bb ind
      in if trend (volume ind) = ''increasing''
         then (if js_gt predictionScore (Fin 0)
               then (js_add predictionScore (Fin 10), js_add confidenceScore (Fin 0.04))
               else if js_lt predictionScore (Fin 0)
               then (js_sub predictionScore (Fin 10), js_add confidenceScore (Fin 0.04))
               else (predictionScore, confidenceScore))
         else (predictionScore, confidenceScore))"

definition pattern_scores :: "jsnum candle list \<Rightarrow> indicators \<Rightarrow> jsnum \<times> jsnum" where
  "pattern_scores candles ind =
     (let (predictionScore, confidenceScore) = pattern_volume ind;
          patternResult = detectCandlestickPatterns candles
      in (js_add predictionScore (score patternResult),
          js_add confidenceScore (confidence_p patternResult)))"

definition getPatternBasedPrediction :: "jsnum candle list \<Rightarrow> indicators \<Rightarrow> prediction_result" where
  "getPatternBasedPrediction candles ind =
     (let (predictionScore, confidenceScore) = pattern_scores candles ind;
          prediction = (if js_gt predictionScore (Fin 15) then ''up''
                        else if js_lt predictionScore (Fin (- 15)) then ''down''
                        else ''neutral'');
          confidenceScore = js_min (js_max confidenceScore (Fin 0.3)) (Fin 0.85)
      in \<lparr>prediction = prediction, confidence = confidenceScore, source = ''pattern''\<rparr>)"

text \<open>
  What the request to the external predictor comes to, by the point of \<open>getAIPrediction\<close>
  that decides on it:
  \<^item> \<open>FetchRejects\<close>: \<open>fetch\<close> rejects (network error);
  \<^item> \<open>HttpNotOk status\<close>: \<open>response.ok\<close> is false;
  \<^item> \<open>BodyNotJson\<close>: \<open>response.json()\<close> rejects;
  \<^item> \<open>NoTextField\<close>: reading \<open>result.candidates[0].content.parts[0].text\<close> or calling
    \<open>match\<close> on it raises;
  \<^item> \<open>NoJsonObject\<close>: the text has no match of \<open>{.*}\<close>;
  \<^item> \<open>JsonParseFails\<close>: \<open>JSON.parse\<close> raises on the match;
  \<^item> \<open>JsonObject p c\<close>: the match parses to an object with \<open>prediction\<close> field \<open>p\<close> and
    \<open>confidence\<close> field \<open>c\<close>, a string and a number, or absent (\<open>None\<close>).
\<close>

datatype api_outcome =
    FetchRejects
  | HttpNotOk nat
  | BodyNotJson
  | NoTextField
  | NoJsonObject
  | JsonParseFails
  | JsonObject "string option" "jsnum option"

text \<open>The inner \<open>try\<close> block: \<open>Some\<close> where it returns, \<open>None\<close> where control leaves it.\<close>

fun parse_response :: "api_outcome \<Rightarrow> (string \<times> jsnum) option" where
  "parse_response (JsonObject p c) =
     Some (str_or p ''neutral'', field_or c (Fin 0.5))"
| "parse_response _ = None"

text \<open>The part of the outer \<open>try\<close> block up to \<open>response.json()\<close>: the exception it raises, if any.\<close>

fun request_error :: "api_outcome \<Rightarrow> js_error option" where
  "request_error FetchRejects = Some NetworkError"
| "request_error (HttpNotOk status) = Some (GeminiApiError status)"
| "request_error BodyNotJson = Some SyntaxError"
| "request_error _ = None"

text \<open>
  \<open>getAIPrediction\<close> of the AI analysis module. The result is the settlement of the
  promise: \<open>Inr\<close> a value it resolves to, \<open>Inl\<close> an error it rejects with.
  \<open>prepareDataForAI\<close> is left out: it raises nothing on a list of candles and the request
  does not use its result.
\<close>

definition ai_try_body ::
  "string \<Rightarrow> api_outcome \<Rightarrow> jsnum candle list \<Rightarrow> indicators \<Rightarrow> js_error + prediction_result" where
  "ai_try_body apiKey outcome candles ind =
     (if apiKey = [] then Inr (getPatternBasedPrediction candles ind)
      else
        (case request_error outcome of
           Some e \<Rightarrow> Inl e
         | None \<Rightarrow>
             (case parse_response outcome of
                Some (p, c) \<Rightarrow> Inr \<lparr>prediction = p, confidence = c, source = ''gemini''\<rparr>
              | None \<Rightarrow> Inr (getPatternBasedPrediction candles ind))))"

definition getAIPrediction ::
  "string \<Rightarrow> api_outcome \<Rightarrow> jsnum candle list \<Rightarrow> indicators \<Rightarrow> js_error + prediction_result" where
  "getAIPrediction apiKey outcome candles ind =
     (case ai_try_body apiKey outcome candles ind of
        Inl error \<Rightarrow> Inr (getPatternBasedPrediction candles ind)
      | Inr r \<Rightarrow> Inr r)"

text \<open>
  \<open>getAIPrediction\<close> of background.js, where the key is the constant \<open>GEMINI_API_KEY\<close>,
  taken here as a parameter.
\<close>

definition bg_try_body :: "api_outcome \<Rightarrow> js_error + ai_analysis" where
  "bg_try_body outcome =
     (case request_error outcome of
        Some e \<Rightarrow> Inl e
      | None \<Rightarrow>
          (case parse_response outcome of
             Some (p, c) \<Rightarrow> Inr \<lparr>prediction = p, confidence = c\<rparr>
           | None \<Rightarrow> Inr \<lparr>prediction = ''neutral'', confidence = Fin 0.5\<rparr>))"

definition getAIPrediction_bg :: "string \<Rightarrow> api_outcome \<Rightarrow> js_error + ai_analysis" where
  "getAIPrediction_bg GEMINI_API_KEY outcome =
     (if GEMINI_API_KEY = [] then Inr \<lparr>prediction = ''neutral'', confidence = Fin 0.5\<rparr>
      else
        (case bg_try_body outcome of
           Inl error \<Rightarrow> Inr \<lparr>prediction = ''neutral'', confidence = Fin 0.5\<rparr>
         | Inr r \<Rightarrow> Inr r))"

text \<open>
  The outcomes the external call fails with: no key, a rejected request, a response that
  is not OK, and a payload from which no JSON object is read.
\<close>

definition call_fails :: "string \<Rightarrow> api_outcome \<Rightarrow> bool" where
  "call_fails apiKey outcome =
     (apiKey = [] \<or> (case outcome of JsonObject p c \<Rightarrow> False | _ \<Rightarrow> True))"

section \<open>Auxiliary notions for the properties\<close>

text \<open>A number that is finite and lies between two bounds.\<close>

definition fin_in :: "real \<Rightarrow> real \<Rightarrow> jsnum \<Rightarrow> bool" where
  "fin_in lo hi x = (case x of Fin r \<Rightarrow> lo \<le> r \<and> r \<le> hi | _ \<Rightarrow> False)"

definition pat_ok :: "pattern_result \<Rightarrow> bool" where
  "pat_ok r = (fin_in (- 10) 10 (score r) \<and> fin_in 0 0.05 (confidence_p r))"

text \<open>
  The indicator categories of \<open>getPatternBasedPrediction\<close> that contribute: the condition
  under which each numbered block changes the running score, and the confidence the five
  blocks add up to, from the base 0.5.
\<close>

definition ema_fired :: "indicators \<Rightarrow> bool" where
  "ema_fired ind = (crossover (ema ind) = ''bullish'' \<or> crossover (ema ind) = ''bearish'')"

definition macd_fired :: "indicators \<Rightarrow> bool" where
  "macd_fired ind =
     ((js_gt (histogram (macd ind)) (Fin 0) \<and>
       js_gt (histogram (macd ind)) (previousHistogram (macd ind))) \<or>
      (js_lt (histogram (macd ind)) (Fin 0) \<and>
       js_lt (histogram (macd ind)) (previousHistogram (macd ind))))"

definition rsi_fired :: "indicators \<Rightarrow> bool" where
  "rsi_fired ind = (js_lt (rsi_value (rsi ind)) (Fin 30) \<or> js_gt (rsi_value (rsi ind)) (Fin 70))"

definition bb_fired :: "indicators \<Rightarrow> bool" where
  "bb_fired ind = (position (bb ind) = ''lower'' \<or> position (bb ind) = ''upper'')"

definition volume_fired :: "indicators \<Rightarrow> bool" where
  "volume_fired ind =
     (trend (volume ind) = ''increasing'' \<and>
      (js_gt (fst (pattern_bb ind)) (Fin 0) \<or> js_lt (fst (pattern_bb ind)) (Fin 0)))"

definition indicator_confidence :: "indicators \<Rightarrow> real" where
  "indicator_confidence ind =
     0.5 + (if ema_fired ind then 0.1 else 0) + (if macd_fired ind then 0.08 else 0) +
     (if rsi_fired ind then 0.06 else 0) + (if bb_fired ind then 0.08 else 0) +
     (if volume_fired ind then 0.04 else 0)"

text \<open>Indicators in which only the EMA crossover says anything.\<close>

definition bullish_indicators :: indicators where
  "bullish_indicators =
     getEmptyIndicators\<lparr>ema := \<lparr>ema20 = Some (Fin 0), ema50 = Some (Fin 0), crossover = ''bullish''\<rparr>\<rparr>"

text \<open>
  The candles \<open>normalizeCandleData\<close> builds, one for each element that is not \<open>null\<close>,
  with the timestamp the loop has reached, before validation.
\<close>

fun built_candles :: "raw_item list \<Rightarrow> jsnum \<Rightarrow> jsnum \<Rightarrow> jsnum option candle list" where
  "built_candles [] ts interval = []"
| "built_candles (item # rest) ts interval =
     (case build_candle item ts of Inl e \<Rightarrow> [] | Inr candle \<Rightarrow> [candle]) @
     built_candles rest (js_add ts interval) interval"

text \<open>Twenty prices that alternate between 1 and 3.\<close>

definition zigzag :: "jsnum list" where
  "zigzag = [Fin 1, Fin 3, Fin 1, Fin 3, Fin 1, Fin 3, Fin 1, Fin 3, Fin 1, Fin 3,
             Fin 1, Fin 3, Fin 1, Fin 3, Fin 1, Fin 3, Fin 1, Fin 3, Fin 1, Fin 3]"

text \<open>The values the loop of \<open>getEMA\<close> pushes for the prices \<open>ps\<close> after the value \<open>e\<close>.\<close>

fun ema_values :: "jsnum \<Rightarrow> jsnum \<Rightarrow> jsnum list \<Rightarrow> jsnum list" where
  "ema_values m e [] = []"
| "ema_values m e (p # ps) =
     d_add (d_mul (d_sub p e) m) e # ema_values m (d_add (d_mul (d_sub p e) m) e) ps"

text \<open>The double nearest to 0.1.\<close>

definition dbl_tenth :: real where
  "dbl_tenth = 3602879701896397 / 2 ^ 55"

section \<open>Basic facts about numbers\<close>

lemma fin_in_Fin [simp]: "fin_in lo hi (Fin r) = (lo \<le> r \<and> r \<le> hi)"
  by (simp add: fin_in_def)

lemma fin_inD: "fin_in lo hi x \<Longrightarrow> \<exists>r. x = Fin r \<and> lo \<le> r \<and> r \<le> hi"
  by (cases x) (simp_all add: fin_in_def)

lemma js_sub_Fin [simp]: "js_sub (Fin a) (Fin b) = Fin (a - b)"
  by (simp add: js_sub_def)

section \<open>Accuracy tracker\<close>

text \<open>
  Claim C2, as amended. Every call of \<open>trackSignalAccuracy\<close> adds one to \<open>totalSignals\<close>;
  it adds one to \<open>correctSignals\<close> exactly when the signal type is \<open>buy\<close> or \<open>sell\<close> and
  the result is \<open>win\<close>; it stores the new counters, and it returns the accuracy as a
  percentage, \<open>correctSignals / totalSignals * 100\<close>. From zeroed counters, recording
  \<open>(buy, win)\<close> and then \<open>(sell, loss)\<close> returns 50, with \<open>totalSignals = 2\<close> and
  \<open>correctSignals = 1\<close>.
\<close>

theorem trackSignalAccuracy_records:
  "totalSignals (stats (fst (trackSignalAccuracy st ty res))) = totalSignals (stats st) + 1 \<and>
   correctSignals (stats (fst (trackSignalAccuracy st ty res))) =
     (if (ty = ''buy'' \<or> ty = ''sell'') \<and> res = ''win'' then correctSignals (stats st) + 1
      else correctSignals (stats st)) \<and>
   storedStats (fst (trackSignalAccuracy st ty res)) =
     Some (stats (fst (trackSignalAccuracy st ty res))) \<and>
   snd (trackSignalAccuracy st ty res) =
     Fin (real (correctSignals (stats (fst (trackSignalAccuracy st ty res)))) /
          real (totalSignals (stats (fst (trackSignalAccuracy st ty res)))) * 100) \<and>
   (let s1 = fst (trackSignalAccuracy initial_state ''buy'' ''win'');
        r2 = trackSignalAccuracy s1 ''sell'' ''loss''
    in snd r2 = Fin 50 \<and> totalSignals (stats (fst r2)) = 2 \<and> correctSignals (stats (fst r2)) = 1)"
  by (simp add: trackSignalAccuracy_def Let_def initial_state_def)

text \<open>
  The claim as stated fails: after \<open>(buy, win)\<close> and \<open>(sell, loss)\<close> the value returned is
  50, not the ratio 0.5.
\<close>

theorem trackSignalAccuracy_returns_percentage:
  "snd (trackSignalAccuracy (fst (trackSignalAccuracy initial_state ''buy'' ''win''))
         ''sell'' ''loss'') = Fin 50 \<and>
   snd (trackSignalAccuracy (fst (trackSignalAccuracy initial_state ''buy'' ''win''))
         ''sell'' ''loss'') \<noteq> Fin 0.5"
  by (simp add: trackSignalAccuracy_def Let_def initial_state_def)

section \<open>Signal scorer\<close>

lemma signalPoints_ema_fin: "fin_in (- 20) 20 (signalPoints_ema ind)"
  by (simp add: signalPoints_ema_def)

lemma signalPoints_macd_fin: "fin_in (- 40) 40 (signalPoints_macd ind)"
proof -
  obtain k where "signalPoints_ema ind = Fin k" "- 20 \<le> k" "k \<le> 20"
    using signalPoints_ema_fin [of ind] by (metis fin_inD)
  then show ?thesis by (simp add: signalPoints_macd_def Let_def)
qed

lemma signalPoints_rsi_fin: "fin_in (- 55) 55 (signalPoints_rsi ind)"
proof -
  obtain k where "signalPoints_macd ind = Fin k" "- 40 \<le> k" "k \<le> 40"
    using signalPoints_macd_fin [of ind] by (metis fin_inD)
  then show ?thesis by (simp add: signalPoints_rsi_def Let_def)
qed

lemma signalPoints_bb_fin: "fin_in (- 70) 70 (signalPoints_bb ind)"
proof -
  obtain k where "signalPoints_rsi ind = Fin k" "- 55 \<le> k" "k \<le> 55"
    using signalPoints_rsi_fin [of ind] by (metis fin_inD)
  then show ?thesis by (simp add: signalPoints_bb_def Let_def)
qed

lemma signalPoints_volume_fin: "fin_in (- 80) 80 (signalPoints_volume ind)"
proof -
  obtain k where "signalPoints_bb ind = Fin k" "- 70 \<le> k" "k \<le> 70"
    using signalPoints_bb_fin [of ind] by (metis fin_inD)
  then show ?thesis by (simp add: signalPoints_volume_def js_gt_def Let_def)
qed

lemma signalPoints_ai_not_NaN:
  assumes "confidence ai \<noteq> NaN"
  shows "signalPoints_ai ind ai \<noteq> NaN"
proof -
  obtain k where "signalPoints_volume ind = Fin k"
    using signalPoints_volume_fin [of ind] by (metis fin_inD)
  with assms show ?thesis
    by (cases "confidence ai") (auto simp: signalPoints_ai_def js_sub_def Let_def)
qed

lemma strength_range: "x \<noteq> NaN \<Longrightarrow> fin_in 0 100 (js_min (js_abs x) (Fin 100))"
  by (cases x) auto

text \<open>
  Claim C6. For all indicators and every directional estimate whose confidence is a
  number (not \<open>NaN\<close>), \<open>generateSignal\<close> returns type \<open>buy\<close> exactly when the weighted score
  \<open>signalPoints\<close> exceeds 30, \<open>sell\<close> exactly when it is below -30 and \<open>neutral\<close> otherwise;
  the strength is \<open>min(|score|, 100)\<close> and lies in \<open>[0, 100]\<close>.
\<close>

theorem generateSignal_type_and_strength:
  assumes "confidence ai \<noteq> NaN"
  shows "(signalType (generateSignal ind ai) = ''buy'') = js_gt (signalPoints_ai ind ai) (Fin 30) \<and>
   (signalType (generateSignal ind ai) = ''sell'') = js_lt (signalPoints_ai ind ai) (Fin (- 30)) \<and>
   (signalType (generateSignal ind ai) = ''neutral'') =
      (\<not> js_gt (signalPoints_ai ind ai) (Fin 30) \<and> \<not> js_lt (signalPoints_ai ind ai) (Fin (- 30))) \<and>
   strength (generateSignal ind ai) = js_min (js_abs (signalPoints_ai ind ai)) (Fin 100) \<and>
   (\<exists>s. strength (generateSignal ind ai) = Fin s \<and> 0 \<le> s \<and> s \<le> 100)"
proof -
  have st: "strength (generateSignal ind ai) = js_min (js_abs (signalPoints_ai ind ai)) (Fin 100)"
    by (simp add: generateSignal_def Let_def)
  have excl: "js_gt (signalPoints_ai ind ai) (Fin 30) \<Longrightarrow>
              \<not> js_lt (signalPoints_ai ind ai) (Fin (- 30))"
    by (cases "signalPoints_ai ind ai") (auto simp: js_gt_def)
  have ty: "(signalType (generateSignal ind ai) = ''buy'') = js_gt (signalPoints_ai ind ai) (Fin 30)"
     "(signalType (generateSignal ind ai) = ''sell'') = js_lt (signalPoints_ai ind ai) (Fin (- 30))"
     "(signalType (generateSignal ind ai) = ''neutral'') =
      (\<not> js_gt (signalPoints_ai ind ai) (Fin 30) \<and> \<not> js_lt (signalPoints_ai ind ai) (Fin (- 30)))"
    using excl by (auto simp: generateSignal_def Let_def)
  have "\<exists>s. strength (generateSignal ind ai) = Fin s \<and> 0 \<le> s \<and> s \<le> 100"
    unfolding st by (rule fin_inD [OF strength_range [OF signalPoints_ai_not_NaN [OF assms]]])
  with st ty show ?thesis by simp
qed

text \<open>
  The theorem at a bullish crossover with the estimate \<open>up\<close> of confidence 1: the score is
  40, the type \<open>buy\<close> and the strength 40.
\<close>

theorem generateSignal_type_and_strength_witness:
  "confidence \<lparr>prediction = ''up'', confidence = Fin 1\<rparr> \<noteq> NaN \<and>
   signalPoints_ai bullish_indicators \<lparr>prediction = ''up'', confidence = Fin 1\<rparr> = Fin 40 \<and>
   signalType (generateSignal bullish_indicators \<lparr>prediction = ''up'', confidence = Fin 1\<rparr>) = ''buy'' \<and>
   strength (generateSignal bullish_indicators \<lparr>prediction = ''up'', confidence = Fin 1\<rparr>) = Fin 40"
proof -
  have h: "confidence \<lparr>prediction = ''up'', confidence = Fin 1\<rparr> \<noteq> NaN"
    by simp
  have v: "signalPoints_ai bullish_indicators \<lparr>prediction = ''up'', confidence = Fin 1\<rparr> = Fin 40"
    by (simp add: signalPoints_ai_def signalPoints_volume_def signalPoints_bb_def
        signalPoints_rsi_def signalPoints_macd_def signalPoints_ema_def bullish_indicators_def
        getEmptyIndicators_def js_gt_def Let_def)
  from generateSignal_type_and_strength [OF h, of bullish_indicators] h v show ?thesis
    by (simp add: js_gt_def)
qed

section \<open>Pattern detector and local prediction\<close>

lemma hammer_check_ok: "hammer_check candles lc = Some r \<Longrightarrow> pat_ok r"
  by (auto simp: hammer_check_def Let_def pat_ok_def split: if_splits)

lemma engulfing_check_ok: "engulfing_check lc pc = Some r \<Longrightarrow> pat_ok r"
  by (auto simp: engulfing_check_def Let_def pat_ok_def split: if_splits)

lemma three_check_ok: "three_check recent = Some r \<Longrightarrow> pat_ok r"
  by (auto simp: three_check_def Let_def pat_ok_def split: if_splits)

lemma detectCandlestickPatterns_ok: "pat_ok (detectCandlestickPatterns candles)"
  by (auto simp: detectCandlestickPatterns_def Let_def hammer_check_ok engulfing_check_ok
      three_check_ok split: option.splits) (simp_all add: pat_ok_def)

text \<open>
  Claim C10. On fewer than 5 candles \<open>detectCandlestickPatterns\<close> returns score 0 and
  confidence 0; it raises nothing and reads no candle.
\<close>

theorem detectCandlestickPatterns_short:
  "length candles < 5 \<Longrightarrow>
   detectCandlestickPatterns candles = \<lparr>score = Fin 0, confidence_p = Fin 0\<rparr>"
  by (simp add: detectCandlestickPatterns_def)

text \<open>The theorem on a list of four candles.\<close>

theorem detectCandlestickPatterns_short_witness:
  "length (replicate 4 \<lparr>timestamp = Fin 0, open_c = Fin 1, high = Fin 3, low = Fin 0,
                          close = Fin 2, volume_c = Fin 0\<rparr>) < 5 \<and>
   detectCandlestickPatterns (replicate 4 \<lparr>timestamp = Fin 0, open_c = Fin 1, high = Fin 3,
                                           low = Fin 0, close = Fin 2, volume_c = Fin 0\<rparr>) =
     \<lparr>score = Fin 0, confidence_p = Fin 0\<rparr>"
proof -
  have h: "length (replicate 4 \<lparr>timestamp = Fin 0, open_c = Fin 1, high = Fin 3, low = Fin 0,
                                close = Fin 2, volume_c = Fin 0\<rparr>) < 5"
    by simp
  from detectCandlestickPatterns_short [OF h] h show ?thesis by simp
qed

lemma pattern_ema_fin:
  "fin_in (- 25) 25 (fst (pattern_ema ind)) \<and> fin_in 0.5 0.6 (snd (pattern_ema ind))"
  by (simp add: pattern_ema_def)

lemma pattern_macd_fin:
  "fin_in (- 45) 45 (fst (pattern_macd ind)) \<and> fin_in 0.5 0.68 (snd (pattern_macd ind))"
proof -
  obtain s c where "pattern_ema ind = (Fin s, Fin c)" "- 25 \<le> s" "s \<le> 25" "0.5 \<le> c" "c \<le> 0.6"
    using pattern_ema_fin [of ind] by (metis fin_inD prod.collapse)
  then show ?thesis by (simp add: pattern_macd_def)
qed

lemma pattern_rsi_fin:
  "fin_in (- 60) 60 (fst (pattern_rsi ind)) \<and> fin_in 0.5 0.74 (snd (pattern_rsi ind))"
proof -
  obtain s c where "pattern_macd ind = (Fin s, Fin c)" "- 45 \<le> s" "s \<le> 45" "0.5 \<le> c" "c \<le> 0.68"
    using pattern_macd_fin [of ind] by (metis fin_inD prod.collapse)
  then show ?thesis by (simp add: pattern_rsi_def)
qed

lemma pattern_bb_fin:
  "fin_in (- 80) 80 (fst (pattern_bb ind)) \<and> fin_in 0.5 0.82 (snd (pattern_bb ind))"
proof -
  obtain s c where "pattern_rsi ind = (Fin s, Fin c)" "- 60 \<le> s" "s \<le> 60" "0.5 \<le> c" "c \<le> 0.74"
    using pattern_rsi_fin [of ind] by (metis fin_inD prod.collapse)
  then show ?thesis by (simp add: pattern_bb_def)
qed

lemma pattern_volume_fin:
  "fin_in (- 90) 90 (fst (pattern_volume ind)) \<and> fin_in 0.5 0.86 (snd (pattern_volume ind))"
proof -
  obtain s c where "pattern_bb ind = (Fin s, Fin c)" "- 80 \<le> s" "s \<le> 80" "0.5 \<le> c" "c \<le> 0.82"
    using pattern_bb_fin [of ind] by (metis fin_inD prod.collapse)
  then show ?thesis by (simp add: pattern_volume_def js_gt_def)
qed

lemma pattern_scores_fin:
  "fin_in (- 100) 100 (fst (pattern_scores candles ind)) \<and>
   fin_in 0.5 0.91 (snd (pattern_scores candles ind))"
proof -
  obtain s c where a: "pattern_volume ind = (Fin s, Fin c)"
      "- 90 \<le> s" "s \<le> 90" "0.5 \<le> c" "c \<le> 0.86"
    using pattern_volume_fin [of ind] by (metis fin_inD prod.collapse)
  obtain ps pc where b: "score (detectCandlestickPatterns candles) = Fin ps" "- 10 \<le> ps" "ps \<le> 10"
      "confidence_p (detectCandlestickPatterns candles) = Fin pc" "0 \<le> pc" "pc \<le> 0.05"
    using detectCandlestickPatterns_ok [of candles] unfolding pat_ok_def by (metis fin_inD)
  from a b show ?thesis by (simp add: pattern_scores_def)
qed

text \<open>The confidence after each block is the base plus the increments of the blocks that fired.\<close>

lemma pattern_ema_conf: "snd (pattern_ema ind) = Fin (0.5 + (if ema_fired ind then 0.1 else 0))"
  by (simp add: pattern_ema_def ema_fired_def)

lemma pattern_macd_conf:
  "snd (pattern_macd ind) =
   Fin (0.5 + (if ema_fired ind then 0.1 else 0) + (if macd_fired ind then 0.08 else 0))"
proof -
  obtain s where "pattern_ema ind = (Fin s, Fin (0.5 + (if ema_fired ind then 0.1 else 0)))"
    using pattern_ema_fin [of ind] pattern_ema_conf [of ind] by (metis fin_inD prod.collapse)
  then show ?thesis by (simp add: pattern_macd_def macd_fired_def)
qed

lemma pattern_rsi_conf:
  "snd (pattern_rsi ind) =
   Fin (0.5 + (if ema_fired ind then 0.1 else 0) + (if macd_fired ind then 0.08 else 0) +
        (if rsi_fired ind then 0.06 else 0))"
proof -
  obtain s where "pattern_macd ind =
      (Fin s, Fin (0.5 + (if ema_fired ind then 0.1 else 0) + (if macd_fired ind then 0.08 else 0)))"
    using pattern_macd_fin [of ind] pattern_macd_conf [of ind] by (metis fin_inD prod.collapse)
  then show ?thesis by (simp add: pattern_rsi_def rsi_fired_def)
qed

lemma pattern_bb_conf:
  "snd (pattern_bb ind) =
   Fin (0.5 + (if ema_fired ind then 0.1 else 0) + (if macd_fired ind then 0.08 else 0) +
        (if rsi_fired ind then 0.06 else 0) + (if bb_fired ind then 0.08 else 0))"
proof -
  obtain s where "pattern_rsi ind =
      (Fin s, Fin (0.5 + (if ema_fired ind then 0.1 else 0) + (if macd_fired ind then 0.08 else 0) +
                   (if rsi_fired ind then 0.06 else 0)))"
    using pattern_rsi_fin [of ind] pattern_rsi_conf [of ind] by (metis fin_inD prod.collapse)
  then show ?thesis by (simp add: pattern_bb_def bb_fired_def)
qed

lemma pattern_volume_conf: "snd (pattern_volume ind) = Fin (indicator_confidence ind)"
proof -
  obtain s where a: "pattern_bb ind =
      (Fin s, Fin (0.5 + (if ema_fired ind then 0.1 else 0) + (if macd_fired ind then 0.08 else 0) +
                   (if rsi_fired ind then 0.06 else 0) + (if bb_fired ind then 0.08 else 0)))"
    using pattern_bb_fin [of ind] pattern_bb_conf [of ind] by (metis fin_inD prod.collapse)
  show ?thesis
    unfolding indicator_confidence_def
    by (simp add: pattern_volume_def volume_fired_def a)
qed

lemma pattern_scores_conf:
  "snd (pattern_scores candles ind) =
   js_add (Fin (indicator_confidence ind)) (confidence_p (detectCandlestickPatterns candles))"
  using pattern_volume_conf [of ind] by (simp add: pattern_scores_def Let_def split_def)

lemma clamp_range: "fin_in 0.3 0.85 (js_min (js_max (Fin c) (Fin 0.3)) (Fin 0.85))"
  by simp

text \<open>
  Claim C7. For all candles and indicators, \<open>getPatternBasedPrediction\<close> returns \<open>up\<close>
  exactly when its weighted score exceeds 15, \<open>down\<close> exactly when the score is below -15
  and \<open>neutral\<close> otherwise. Its confidence is the base 0.5, plus 0.1, 0.08, 0.06, 0.08 and
  0.04 for the EMA, MACD, RSI, Bollinger and volume blocks that fired, plus the
  confidence of the pattern detector, clamped to \<open>[0.3, 0.85]\<close>, where it always lies.
\<close>

theorem getPatternBasedPrediction_direction_and_confidence:
  "(prediction (getPatternBasedPrediction candles ind) = ''up'') =
      js_gt (fst (pattern_scores candles ind)) (Fin 15) \<and>
   (prediction (getPatternBasedPrediction candles ind) = ''down'') =
      js_lt (fst (pattern_scores candles ind)) (Fin (- 15)) \<and>
   (prediction (getPatternBasedPrediction candles ind) = ''neutral'') =
      (\<not> js_gt (fst (pattern_scores candles ind)) (Fin 15) \<and>
       \<not> js_lt (fst (pattern_scores candles ind)) (Fin (- 15))) \<and>
   confidence (getPatternBasedPrediction candles ind) =
      js_min (js_max (js_add (Fin (indicator_confidence ind))
                             (confidence_p (detectCandlestickPatterns candles)))
                     (Fin 0.3)) (Fin 0.85) \<and>
   (\<exists>c. confidence (getPatternBasedPrediction candles ind) = Fin c \<and> 0.3 \<le> c \<and> c \<le> 0.85)"
proof -
  obtain s c where sc: "pattern_scores candles ind = (Fin s, Fin c)"
    using pattern_scores_fin [of candles ind] by (metis fin_inD prod.collapse)
  have conf: "confidence (getPatternBasedPrediction candles ind) =
      js_min (js_max (Fin c) (Fin 0.3)) (Fin 0.85)"
    by (simp add: getPatternBasedPrediction_def sc)
  have c: "Fin c = js_add (Fin (indicator_confidence ind))
                          (confidence_p (detectCandlestickPatterns candles))"
    using pattern_scores_conf [of candles ind] sc by simp
  have pr: "prediction (getPatternBasedPrediction candles ind) =
      (if 15 < s then ''up'' else if s < - 15 then ''down'' else ''neutral'')"
    by (simp add: getPatternBasedPrediction_def sc js_gt_def)
  have rng: "\<exists>r. confidence (getPatternBasedPrediction candles ind) = Fin r \<and> 0.3 \<le> r \<and> r \<le> 0.85"
    unfolding conf by (rule fin_inD [OF clamp_range])
  have "(prediction (getPatternBasedPrediction candles ind) = ''up'') = (15 < s)"
     "(prediction (getPatternBasedPrediction candles ind) = ''down'') = (s < - 15)"
     "(prediction (getPatternBasedPrediction candles ind) = ''neutral'') = (\<not> 15 < s \<and> \<not> s < - 15)"
    by (auto simp: pr)
  moreover have "confidence (getPatternBasedPrediction candles ind) =
      js_min (js_max (js_add (Fin (indicator_confidence ind))
                             (confidence_p (detectCandlestickPatterns candles)))
                     (Fin 0.3)) (Fin 0.85)"
    unfolding conf c ..
  ultimately show ?thesis
    using rng sc by (simp add: js_gt_def)
qed

lemma getPatternBasedPrediction_bullish:
  "getPatternBasedPrediction [] bullish_indicators =
     \<lparr>prediction = ''up'', confidence = Fin 0.6, source = ''pattern''\<rparr>"
  by (simp add: getPatternBasedPrediction_def pattern_scores_def pattern_volume_def pattern_bb_def
       pattern_rsi_def pattern_macd_def pattern_ema_def detectCandlestickPatterns_def
       bullish_indicators_def getEmptyIndicators_def js_gt_def Let_def)

section \<open>Prediction fusion\<close>

text \<open>
  Claim C1, as amended. Neither \<open>getAIPrediction\<close> ever rejects. When the external call
  fails (no API key, a rejected request, a response that is not OK, a body that is not
  JSON, or a text from which no JSON object is parsed), \<open>getAIPrediction\<close> of the AI
  analysis module returns the local estimate \<open>getPatternBasedPrediction(candles,
  indicators)\<close>, and \<open>getAIPrediction\<close> of background.js returns the fixed estimate
  \<open>neutral\<close> with confidence 0.5. A text that parses to a JSON object is not a failure,
  even with a field missing: with a key, both return its \<open>prediction\<close>, or \<open>neutral\<close>, and
  its \<open>confidence\<close>, or 0.5.
\<close>

theorem getAIPrediction_failure_fallback:
  "(\<exists>r. getAIPrediction apiKey outcome candles ind = Inr r) \<and>
   (\<exists>r. getAIPrediction_bg apiKey outcome = Inr r) \<and>
   (call_fails apiKey outcome \<longrightarrow>
      getAIPrediction apiKey outcome candles ind = Inr (getPatternBasedPrediction candles ind) \<and>
      getAIPrediction_bg apiKey outcome = Inr \<lparr>prediction = ''neutral'', confidence = Fin 0.5\<rparr>) \<and>
   (apiKey \<noteq> [] \<longrightarrow>
      getAIPrediction apiKey (JsonObject p c) candles ind =
        Inr \<lparr>prediction = str_or p ''neutral'', confidence = field_or c (Fin 0.5),
             source = ''gemini''\<rparr> \<and>
      getAIPrediction_bg apiKey (JsonObject p c) =
        Inr \<lparr>prediction = str_or p ''neutral'', confidence = field_or c (Fin 0.5)\<rparr>)"
proof -
  have a: "\<exists>r. getAIPrediction apiKey outcome candles ind = Inr r"
    by (simp add: getAIPrediction_def split: sum.splits)
  have b: "\<exists>r. getAIPrediction_bg apiKey outcome = Inr r"
    by (simp add: getAIPrediction_bg_def split: sum.splits)
  have c: "call_fails apiKey outcome \<Longrightarrow>
      getAIPrediction apiKey outcome candles ind = Inr (getPatternBasedPrediction candles ind) \<and>
      getAIPrediction_bg apiKey outcome = Inr \<lparr>prediction = ''neutral'', confidence = Fin 0.5\<rparr>"
    by (cases outcome)
       (simp_all add: getAIPrediction_def ai_try_body_def getAIPrediction_bg_def bg_try_body_def
          call_fails_def)
  have d: "apiKey \<noteq> [] \<Longrightarrow>
      getAIPrediction apiKey (JsonObject p c) candles ind =
        Inr \<lparr>prediction = str_or p ''neutral'', confidence = field_or c (Fin 0.5),
             source = ''gemini''\<rparr> \<and>
      getAIPrediction_bg apiKey (JsonObject p c) =
        Inr \<lparr>prediction = str_or p ''neutral'', confidence = field_or c (Fin 0.5)\<rparr>"
    by (simp add: getAIPrediction_def ai_try_body_def getAIPrediction_bg_def bg_try_body_def)
  from a b c d show ?thesis by blast
qed

text \<open>The theorem at a response with status 500, on no candles and a bullish crossover.\<close>

theorem getAIPrediction_failure_fallback_witness:
  "call_fails ''key'' (HttpNotOk 500) \<and> ''key'' \<noteq> [] \<and>
   getAIPrediction ''key'' (HttpNotOk 500) [] bullish_indicators =
     Inr \<lparr>prediction = ''up'', confidence = Fin 0.6, source = ''pattern''\<rparr> \<and>
   getAIPrediction_bg ''key'' (HttpNotOk 500) = Inr \<lparr>prediction = ''neutral'', confidence = Fin 0.5\<rparr> \<and>
   getAIPrediction ''key'' (JsonObject (Some ''down'') (Some (Fin 0.7))) [] bullish_indicators =
     Inr \<lparr>prediction = ''down'', confidence = Fin 0.7, source = ''gemini''\<rparr>"
proof -
  have h: "call_fails ''key'' (HttpNotOk 500)" "''key'' \<noteq> []"
    by (simp_all add: call_fails_def)
  from getAIPrediction_failure_fallback
         [of "''key''" "HttpNotOk 500" "[]" bullish_indicators "Some ''down''" "Some (Fin 0.7)"] h
  show ?thesis by (simp add: getPatternBasedPrediction_bullish)
qed

text \<open>
  The claim as stated fails. On background.js: with no API key its \<open>getAIPrediction\<close>
  returns \<open>neutral\<close> with confidence 0.5, where the local estimate weighting the indicators
  is \<open>up\<close> with confidence 0.6. On a payload with both fields missing: \<open>getAIPrediction\<close> of
  the AI analysis module returns \<open>neutral\<close> with confidence 0.5 from the source \<open>gemini\<close>,
  not the local estimate.
\<close>

theorem getAIPrediction_not_local_estimate:
  "call_fails [] FetchRejects \<and>
   getAIPrediction_bg [] FetchRejects = Inr \<lparr>prediction = ''neutral'', confidence = Fin 0.5\<rparr> \<and>
   getAIPrediction ''key'' (JsonObject None None) [] bullish_indicators =
     Inr \<lparr>prediction = ''neutral'', confidence = Fin 0.5, source = ''gemini''\<rparr> \<and>
   getPatternBasedPrediction [] bullish_indicators =
     \<lparr>prediction = ''up'', confidence = Fin 0.6, source = ''pattern''\<rparr>"
  by (simp add: getPatternBasedPrediction_bullish call_fails_def getAIPrediction_bg_def
      getAIPrediction_def ai_try_body_def)

section \<open>Candle normalisation\<close>

lemma normalize_loop_valid:
  "\<forall>c \<in> set acc. isValidCandle c \<Longrightarrow> normalize_loop data ts iv acc = Inr out \<Longrightarrow>
   \<forall>c \<in> set out. isValidCandle c"
proof (induction data arbitrary: ts acc)
  case Nil
  then show ?case by simp
next
  case (Cons item rest)
  from Cons.prems(2) obtain candle where b: "build_candle item ts = Inr candle"
    by (cases "build_candle item ts") simp_all
  let ?acc = "if isValidCandle candle then acc @ [candle] else acc"
  have "\<forall>c \<in> set ?acc. isValidCandle c"
    using Cons.prems(1) by simp
  moreover have "normalize_loop rest (js_add ts iv) iv ?acc = Inr out"
    using Cons.prems(2) b by simp
  ultimately show ?case by (rule Cons.IH)
qed

lemma normalize_loop_filter:
  "RawNull \<notin> set data \<Longrightarrow>
   normalize_loop data ts iv acc = Inr (acc @ filter isValidCandle (built_candles data ts iv))"
proof (induction data arbitrary: ts acc)
  case Nil
  then show ?case by simp
next
  case (Cons item rest)
  then show ?case by (cases item) simp_all
qed

lemma normalize_loop_null:
  "RawNull \<in> set data \<Longrightarrow> normalize_loop data ts iv acc = Inl TypeError"
proof (induction data arbitrary: ts acc)
  case Nil
  then show ?case by simp
next
  case (Cons item rest)
  show ?case
  proof (cases "item = RawNull")
    case True
    then show ?thesis by simp
  next
    case False
    with Cons.prems have "RawNull \<in> set rest" by simp
    then have "\<And>ts acc. normalize_loop rest ts iv acc = Inl TypeError"
      by (rule Cons.IH)
    then show ?thesis by (cases item) simp_all
  qed
qed

text \<open>
  Claim C5, as amended. Every candle \<open>normalizeCandleData\<close> returns has its open, high,
  low and close defined and not \<open>NaN\<close>; when no element of the data is \<open>null\<close>, it
  returns, in order, exactly the built candles that pass this test; when an element is
  \<open>null\<close>, it returns no candle at all. The test is that the four prices are defined and
  not \<open>NaN\<close>, and nothing else: their order is not part of it.
\<close>

theorem normalizeCandleData_keeps_defined_prices:
  "(\<forall>c \<in> set (normalizeCandleData data tf now). isValidCandle c) \<and>
   (RawNull \<notin> set data \<longrightarrow>
      normalizeCandleData data tf now =
        filter isValidCandle
          (built_candles data
             (js_sub (Fin now) (js_mul (Fin (real (length data))) (getTimeframeInMs tf)))
             (getTimeframeInMs tf))) \<and>
   (RawNull \<in> set data \<longrightarrow> normalizeCandleData data tf now = []) \<and>
   isValidCandle candle =
     (\<exists>a b c d. open_c candle = Some a \<and> high candle = Some b \<and> low candle = Some c \<and>
                close candle = Some d \<and>
                \<not> js_isNaN a \<and> \<not> js_isNaN b \<and> \<not> js_isNaN c \<and> \<not> js_isNaN d)"
proof -
  have a: "\<forall>c \<in> set (normalizeCandleData data tf now). isValidCandle c"
  proof (cases "normalize_loop data
          (js_sub (Fin now) (js_mul (Fin (real (length data))) (getTimeframeInMs tf)))
          (getTimeframeInMs tf) []")
    case (Inl e)
    then show ?thesis by (simp add: normalizeCandleData_def Let_def)
  next
    case (Inr out)
    have "\<forall>c \<in> set out. isValidCandle c"
      by (rule normalize_loop_valid [OF _ Inr]) simp
    with Inr show ?thesis by (simp add: normalizeCandleData_def Let_def)
  qed
  have b: "RawNull \<notin> set data \<Longrightarrow> normalizeCandleData data tf now =
        filter isValidCandle
          (built_candles data
             (js_sub (Fin now) (js_mul (Fin (real (length data))) (getTimeframeInMs tf)))
             (getTimeframeInMs tf))"
    by (cases "data = []") (simp_all add: normalizeCandleData_def Let_def normalize_loop_filter)
  have c: "RawNull \<in> set data \<Longrightarrow> normalizeCandleData data tf now = []"
    by (simp add: normalizeCandleData_def Let_def normalize_loop_null)
  have d: "isValidCandle candle =
     (\<exists>a b c d. open_c candle = Some a \<and> high candle = Some b \<and> low candle = Some c \<and>
                close candle = Some d \<and>
                \<not> js_isNaN a \<and> \<not> js_isNaN b \<and> \<not> js_isNaN c \<and> \<not> js_isNaN d)"
    by (cases "open_c candle"; cases "high candle"; cases "low candle"; cases "close candle")
       (simp_all add: isValidCandle_def)
  from a b c d show ?thesis by blast
qed

text \<open>
  The theorem on a string, an array without a close and a well-formed array: only the
  last one is kept. With a \<open>null\<close> after the well-formed array, nothing is returned.
\<close>

theorem normalizeCandleData_keeps_defined_prices_witness:
  "RawNull \<notin> set [RawPrimitive, RawArray [None, Some (Fin 1), Some (Fin 3), Some (Fin 0)],
                   RawArray [Some (Fin 7), Some (Fin 1), Some (Fin 3), Some (Fin 0), Some (Fin 2)]] \<and>
   normalizeCandleData
     [RawPrimitive, RawArray [None, Some (Fin 1), Some (Fin 3), Some (Fin 0)],
      RawArray [Some (Fin 7), Some (Fin 1), Some (Fin 3), Some (Fin 0), Some (Fin 2)]] ''M1'' 0 =
     [\<lparr>timestamp = Some (Fin 7), open_c = Some (Fin 1), high = Some (Fin 3), low = Some (Fin 0),
       close = Some (Fin 2), volume_c = Some (Fin 0)\<rparr>] \<and>
   isValidCandle \<lparr>timestamp = Some (Fin 7), open_c = Some (Fin 1), high = Some (Fin 3),
                   low = Some (Fin 0), close = Some (Fin 2), volume_c = Some (Fin 0)\<rparr> \<and>
   RawNull \<in> set [RawArray [Some (Fin 7), Some (Fin 1), Some (Fin 3), Some (Fin 0), Some (Fin 2)],
                   RawNull] \<and>
   normalizeCandleData
     [RawArray [Some (Fin 7), Some (Fin 1), Some (Fin 3), Some (Fin 0), Some (Fin 2)],
      RawNull] ''M1'' 0 = []"
proof -
  have h: "RawNull \<notin> set [RawPrimitive, RawArray [None, Some (Fin 1), Some (Fin 3), Some (Fin 0)],
                   RawArray [Some (Fin 7), Some (Fin 1), Some (Fin 3), Some (Fin 0), Some (Fin 2)]]"
    by simp
  have n: "RawNull \<in> set [RawArray [Some (Fin 7), Some (Fin 1), Some (Fin 3), Some (Fin 0),
                                     Some (Fin 2)], RawNull]"
    by simp
  from normalizeCandleData_keeps_defined_prices
         [of "[RawPrimitive, RawArray [None, Some (Fin 1), Some (Fin 3), Some (Fin 0)],
               RawArray [Some (Fin 7), Some (Fin 1), Some (Fin 3), Some (Fin 0), Some (Fin 2)]]"
             "''M1''" 0]
       normalizeCandleData_keeps_defined_prices
         [of "[RawArray [Some (Fin 7), Some (Fin 1), Some (Fin 3), Some (Fin 0), Some (Fin 2)],
               RawNull]" "''M1''" 0] h n
  show ?thesis
    by (simp add: item_at_def isValidCandle_def empty_candle_def getTimeframeInMs_def)
qed

text \<open>
  The claim as stated fails: a candle with high 1 and low 9 around an open and a close of
  5 violates the invariant and is returned unchanged.
\<close>

theorem normalizeCandleData_keeps_invalid_ohlc:
  "normalizeCandleData
     [RawArray [Some (Fin 1000), Some (Fin 5), Some (Fin 1), Some (Fin 9), Some (Fin 5)]] ''M1'' 0 =
     [\<lparr>timestamp = Some (Fin 1000), open_c = Some (Fin 5), high = Some (Fin 1),
       low = Some (Fin 9), close = Some (Fin 5), volume_c = Some (Fin 0)\<rparr>] \<and>
   \<not> ohlc_invariant \<lparr>timestamp = Some (Fin 1000), open_c = Some (Fin 5), high = Some (Fin 1),
       low = Some (Fin 9), close = Some (Fin 5), volume_c = Some (Fin 0)\<rparr>"
  by (simp add: normalizeCandleData_def Let_def item_at_def isValidCandle_def ohlc_invariant_def)

section \<open>Indicator library\<close>

lemma foldl_add_replicate:
  "foldl js_add (Fin a) (replicate k (Fin v)) = Fin (a + real k * v)"
  by (induction k arbitrary: a) (simp_all add: algebra_simps)

subsection \<open>Rounding\<close>

lemma ulp_from_eq:
  "i \<le> k \<Longrightarrow> 0 < c \<Longrightarrow> 2 ^ 52 * (c / 2 ^ i) \<le> a \<Longrightarrow> a < 2 ^ 53 * (c / 2 ^ i) \<Longrightarrow>
   ulp_from k c a = c / 2 ^ i"
proof (induction k arbitrary: c i)
  case 0
  then show ?case by simp
next
  case (Suc k)
  show ?case
  proof (cases "2 ^ 52 * c \<le> a")
    case True
    have "i = 0"
    proof (rule ccontr)
      assume "i \<noteq> 0"
      then have "(2::real) \<le> 2 ^ i"
        using self_le_power [of "2::real" i] by simp
      then have "c / 2 ^ i \<le> c / 2"
        using Suc.prems(2) by (intro divide_left_mono) simp_all
      then have "2 ^ 53 * (c / 2 ^ i) \<le> 2 ^ 52 * c"
        by simp
      with True Suc.prems(4) show False by linarith
    qed
    with True show ?thesis by simp
  next
    case False
    then have "i \<noteq> 0"
      using Suc.prems(3) by (cases i) simp_all
    then obtain j where j: "i = Suc j"
      by (cases i) simp_all
    have eq: "c / 2 / 2 ^ j = c / 2 ^ i"
      by (simp add: j)
    have "ulp_from k (c / 2) a = c / 2 / 2 ^ j"
      using Suc.prems by (intro Suc.IH) (simp_all add: j)
    with False eq show ?thesis by simp
  qed
qed

lemma ulp_eq:
  assumes "i \<le> 2045" "u * 2 ^ i = 2 ^ 971" "2 ^ 52 * u \<le> a" "a < 2 ^ 53 * u"
  shows "ulp a = u"
proof -
  have u: "u = 2 ^ 971 / 2 ^ i"
    using assms(2) by (simp add: field_simps)
  show ?thesis
    unfolding ulp_def u using assms unfolding u by (intro ulp_from_eq) simp_all
qed

text \<open>The rounding of a positive number whose spacing is known.\<close>

lemma rnd_eval:
  assumes "0 < a" "i \<le> 2045" "u * 2 ^ i = 2 ^ 971" "2 ^ 52 * u \<le> a" "a < 2 ^ 53 * u"
    and "a / u = q" "rne q = N" "N * u < 2 ^ 1024"
  shows "rnd (Fin a) = Fin (N * u)"
proof -
  have "round_pos a = N * u"
    unfolding round_pos_def ulp_eq [OF assms(2-5)] assms(6) assms(7) ..
  with assms(1) assms(8) show ?thesis by simp
qed

lemma ulp_from_shape:
  "0 < c \<Longrightarrow>
   \<exists>i \<le> k. ulp_from k c a = c / 2 ^ i \<and> (i < k \<longrightarrow> 2 ^ 52 * (c / 2 ^ i) \<le> a) \<and>
            (0 < i \<longrightarrow> a < 2 ^ 52 * (c / 2 ^ (i - 1)))"
proof (induction k arbitrary: c)
  case 0
  then show ?case by simp
next
  case (Suc k)
  show ?case
  proof (cases "2 ^ 52 * c \<le> a")
    case True
    then have "ulp_from (Suc k) c a = c / 2 ^ 0 \<and> ((0::nat) < Suc k \<longrightarrow> 2 ^ 52 * (c / 2 ^ 0) \<le> a) \<and>
               ((0::nat) < 0 \<longrightarrow> a < 2 ^ 52 * (c / 2 ^ (0 - 1)))"
      by simp
    then show ?thesis by blast
  next
    case False
    have "0 < c / 2" using Suc.prems by simp
    from Suc.IH [OF this] obtain j where j: "j \<le> k" "ulp_from k (c / 2) a = c / 2 / 2 ^ j"
        "j < k \<longrightarrow> 2 ^ 52 * (c / 2 / 2 ^ j) \<le> a"
        "0 < j \<longrightarrow> a < 2 ^ 52 * (c / 2 / 2 ^ (j - 1))"
      by blast
    have prev: "a < 2 ^ 52 * (c / 2 ^ j)"
    proof (cases j)
      case 0
      with False show ?thesis by simp
    next
      case (Suc j')
      with j(4) show ?thesis by simp
    qed
    have "Suc j \<le> Suc k \<and> ulp_from (Suc k) c a = c / 2 ^ Suc j \<and>
          (Suc j < Suc k \<longrightarrow> 2 ^ 52 * (c / 2 ^ Suc j) \<le> a) \<and>
          (0 < Suc j \<longrightarrow> a < 2 ^ 52 * (c / 2 ^ (Suc j - 1)))"
      using False j prev by simp
    then show ?thesis by blast
  qed
qed

lemma rne_bounds: "of_int \<lfloor>q\<rfloor> \<le> rne q \<and> rne q \<le> q + 1"
proof -
  have "rne q = of_int \<lfloor>q\<rfloor> \<or> rne q = of_int \<lfloor>q\<rfloor> + 1"
    by (simp add: rne_def Let_def)
  then show ?thesis
  proof
    assume r: "rne q = of_int \<lfloor>q\<rfloor>"
    show ?thesis
      unfolding r using of_int_floor_le [of q] by (intro conjI) linarith+
  next
    assume r: "rne q = of_int \<lfloor>q\<rfloor> + 1"
    show ?thesis
      unfolding r using of_int_floor_le [of q] by (intro conjI) linarith+
  qed
qed

lemma ulp_pos_le: "0 < ulp a \<and> ulp a \<le> 2 ^ 971"
proof -
  obtain i where i: "ulp a = 2 ^ 971 / 2 ^ i"
    using ulp_from_shape [of "2 ^ 971" 2045 a] unfolding ulp_def by auto
  have "(1::real) \<le> 2 ^ i" by simp
  then have "(2::real) ^ 971 / 2 ^ i \<le> 2 ^ 971 / 1"
    by (intro divide_left_mono) simp_all
  then show ?thesis
    unfolding i by simp
qed

text \<open>A number in \<open>[0, 2]\<close> rounds to a finite number; a number from 1 on never rounds below 1.\<close>

lemma rnd_small_finite:
  assumes "0 \<le> z" "z \<le> 2"
  shows "\<exists>w. rnd (Fin z) = Fin w"
proof (cases "z = 0")
  case True
  then show ?thesis by simp
next
  case False
  have "rne (z / ulp z) \<le> z / ulp z + 1"
    using rne_bounds by blast
  then have "rne (z / ulp z) * ulp z \<le> (z / ulp z + 1) * ulp z"
    using ulp_pos_le [of z] by (intro mult_right_mono) simp_all
  also have "\<dots> = z + ulp z"
    using ulp_pos_le [of z] by (simp add: field_simps)
  also have "\<dots> \<le> 2 + 2 ^ 971"
    using assms ulp_pos_le [of z] by linarith
  also have "\<dots> < (2::real) ^ 1024"
    by simp
  finally have "round_pos z < 2 ^ 1024"
    by (simp add: round_pos_def)
  with False assms show ?thesis by simp
qed

lemma round_pos_ge_one:
  assumes "1 \<le> x"
  shows "1 \<le> round_pos x"
proof -
  obtain i where i: "i \<le> 2045" "ulp x = 2 ^ 971 / 2 ^ i"
      "i < 2045 \<longrightarrow> 2 ^ 52 * (2 ^ 971 / 2 ^ i) \<le> x"
      "0 < i \<longrightarrow> x < 2 ^ 52 * (2 ^ 971 / 2 ^ (i - 1))"
    using ulp_from_shape [of "2 ^ 971" 2045 x] unfolding ulp_def by auto
  have small: "i \<le> 1023"
  proof (rule ccontr)
    assume "\<not> i \<le> 1023"
    then have b: "1023 \<le> i - 1" "0 < i" by simp_all
    then have "(2::real) ^ 1023 \<le> 2 ^ (i - 1)"
      by (intro power_increasing) simp_all
    then have "(2::real) ^ 1023 / 2 ^ (i - 1) \<le> 2 ^ 1023 / 2 ^ 1023"
      by (intro divide_left_mono) simp_all
    then have "(2::real) ^ 52 * (2 ^ 971 / 2 ^ (i - 1)) \<le> 1"
      by (simp add: power_add [symmetric])
    with i(4) b(2) assms show False by linarith
  qed
  then have lower: "2 ^ 52 * ulp x \<le> x"
    using i by simp
  have u: "0 < ulp x"
    using ulp_pos_le by blast
  have "(2::real) ^ i \<le> 2 ^ 1023"
    using small by (intro power_increasing) simp_all
  then have "(2::real) ^ 1023 / 2 ^ 1023 \<le> 2 ^ 1023 / 2 ^ i"
    by (intro divide_left_mono) simp_all
  then have one: "1 \<le> 2 ^ 52 * ulp x"
    unfolding i(2) by (simp add: power_add [symmetric])
  have "(2::real) ^ 52 \<le> x / ulp x"
    using lower u by (simp add: field_simps)
  then have "of_int (2 ^ 52) \<le> x / ulp x"
    by simp
  then have "(2::int) ^ 52 \<le> \<lfloor>x / ulp x\<rfloor>"
    by (simp only: le_floor_iff)
  then have "(2::real) ^ 52 \<le> of_int \<lfloor>x / ulp x\<rfloor>"
    by (metis of_int_le_iff of_int_numeral of_int_power)
  moreover have "of_int \<lfloor>x / ulp x\<rfloor> \<le> rne (x / ulp x)"
    using rne_bounds by blast
  ultimately have "2 ^ 52 \<le> rne (x / ulp x)"
    by linarith
  then have "2 ^ 52 * ulp x \<le> rne (x / ulp x) * ulp x"
    using u by (intro mult_right_mono) simp_all
  with one have "1 \<le> rne (x / ulp x) * ulp x"
    by linarith
  then show ?thesis
    by (simp add: round_pos_def)
qed

lemma multiplier_finite: "\<exists>m. d_div (Fin 2) (d_add (Fin (real p)) (Fin 1)) = Fin m"
proof -
  have x: "1 \<le> real p + 1" by simp
  have y: "1 \<le> round_pos (real p + 1)"
    by (rule round_pos_ge_one [OF x])
  show ?thesis
  proof (cases "2 ^ 1024 \<le> round_pos (real p + 1)")
    case True
    then have "d_add (Fin (real p)) (Fin 1) = PosInf"
      using x by (simp add: d_add_def)
    then show ?thesis by (simp add: d_div_def)
  next
    case False
    then have a: "d_add (Fin (real p)) (Fin 1) = Fin (round_pos (real p + 1))"
      using x by (simp add: d_add_def)
    have "0 \<le> 2 / round_pos (real p + 1)" "2 / round_pos (real p + 1) \<le> 2"
      using y by (simp_all add: field_simps)
    from rnd_small_finite [OF this] y show ?thesis
      by (simp add: d_div_def a)
  qed
qed

subsection \<open>The EMA of a constant series\<close>

lemma ema_loop_values: "ema_loop m ps (xs @ [s]) = xs @ s # ema_values m s ps"
proof (induction ps arbitrary: xs s)
  case Nil
  then show ?case by simp
next
  case (Cons p ps)
  have "ema_loop m (p # ps) (xs @ [s]) =
        ema_loop m ps ((xs @ [s]) @ [d_add (d_mul (d_sub p s) m) s])"
    by simp
  also have "\<dots> = (xs @ [s]) @ d_add (d_mul (d_sub p s) m) s #
                      ema_values m (d_add (d_mul (d_sub p s) m) s) ps"
    by (rule Cons.IH)
  finally show ?case by simp
qed

lemma ema_values_length: "length (ema_values m e ps) = length ps"
  by (induction ps arbitrary: e) simp_all

lemma ema_step_fixed:
  "rnd (Fin v) = Fin v \<Longrightarrow> d_add (d_mul (d_sub (Fin v) (Fin v)) (Fin m)) (Fin v) = Fin v"
  by (simp add: d_add_def d_mul_def d_sub_def)

lemma ema_values_fixed:
  "rnd (Fin v) = Fin v \<Longrightarrow>
   ema_values (Fin m) (Fin v) (replicate k (Fin v)) = replicate k (Fin v)"
  by (induction k) (simp_all add: ema_step_fixed del: rnd.simps)

text \<open>Once a value is the price, every later value is.\<close>

lemma ema_values_absorbing:
  assumes "rnd (Fin v) = Fin v"
  shows "i \<le> j \<Longrightarrow> j \<le> k \<Longrightarrow>
         (e # ema_values (Fin m) e (replicate k (Fin v))) ! i = Fin v \<Longrightarrow>
         (e # ema_values (Fin m) e (replicate k (Fin v))) ! j = Fin v"
proof (induction k arbitrary: e i j)
  case 0
  then show ?case by simp
next
  case (Suc k)
  show ?case
  proof (cases i)
    case 0
    with Suc.prems(3) have e: "e = Fin v" by simp
    have "ema_values (Fin m) (Fin v) (replicate (Suc k) (Fin v)) = replicate (Suc k) (Fin v)"
      by (rule ema_values_fixed [OF assms])
    then have "e # ema_values (Fin m) e (replicate (Suc k) (Fin v)) =
               replicate (Suc (Suc k)) (Fin v)"
      unfolding e by (simp only: replicate_Suc)
    moreover have "j < Suc (Suc k)"
      using Suc.prems(2) by simp
    ultimately show ?thesis
      by (simp only: nth_replicate)
  next
    case (Suc i')
    then obtain j' where j': "j = Suc j'"
      using Suc.prems(1) by (cases j) simp_all
    let ?e' = "d_add (d_mul (d_sub (Fin v) e) (Fin m)) e"
    have "(?e' # ema_values (Fin m) ?e' (replicate k (Fin v))) ! j' = Fin v"
    proof (rule Suc.IH [of i' j'])
      show "i' \<le> j'" using Suc.prems(1) Suc j' by simp
      show "j' \<le> k" using Suc.prems(2) j' by simp
      show "(?e' # ema_values (Fin m) ?e' (replicate k (Fin v))) ! i' = Fin v"
        using Suc.prems(3) Suc by simp
    qed
    then show ?thesis by (simp add: j')
  qed
qed

text \<open>
  Claim C8, as amended. For every period \<open>p \<ge> 1\<close> and every constant series of a double
  \<open>v\<close> of length \<open>n \<ge> p\<close>, \<open>getEMA\<close> returns \<open>p - 1\<close> zeros, then the seed, which is the
  average of the first \<open>p\<close> prices as computed in double precision, then \<open>n - p\<close> further
  values; and \<open>v\<close> is a fixed point of the recurrence: once a value from the seed position
  on is exactly \<open>v\<close>, every later value is exactly \<open>v\<close>, so that if the seed is exactly
  \<open>v\<close>, every value from the seed position on is exactly \<open>v\<close>.
\<close>

theorem getEMA_constant_series:
  assumes "0 < p" "p \<le> n" "rnd (Fin v) = Fin v"
  shows "\<exists>tail.
           getEMA (replicate n (Fin v)) p =
             Inr (replicate (p - 1) (Fin 0) @
                  d_div (foldl d_add (Fin 0) (replicate p (Fin v))) (Fin (real p)) # tail) \<and>
           length tail = n - p \<and>
           (d_div (foldl d_add (Fin 0) (replicate p (Fin v))) (Fin (real p)) = Fin v \<longrightarrow>
              tail = replicate (n - p) (Fin v)) \<and>
           (\<forall>i j. i \<le> j \<and> j \<le> n - p \<and>
                  (d_div (foldl d_add (Fin 0) (replicate p (Fin v))) (Fin (real p)) # tail) ! i =
                    Fin v \<longrightarrow>
                  (d_div (foldl d_add (Fin 0) (replicate p (Fin v))) (Fin (real p)) # tail) ! j =
                    Fin v)"
proof -
  let ?seed = "d_div (foldl d_add (Fin 0) (replicate p (Fin v))) (Fin (real p))"
  obtain m where m: "d_div (Fin 2) (d_add (Fin (real p)) (Fin 1)) = Fin m"
    using multiplier_finite by blast
  let ?tail = "ema_values (Fin m) ?seed (replicate (n - p) (Fin v))"
  have tk: "take p (replicate n (Fin v)) = replicate p (Fin v)"
    using assms by (simp add: min_def)
  have "getEMA (replicate n (Fin v)) p =
        Inr (ema_loop (Fin m) (replicate (n - p) (Fin v)) (replicate (p - 1) (Fin 0) @ [?seed]))"
    using assms(1,2) unfolding getEMA_def Let_def tk m by simp
  then have res: "getEMA (replicate n (Fin v)) p = Inr (replicate (p - 1) (Fin 0) @ ?seed # ?tail)"
    by (simp only: ema_loop_values)
  have len: "length ?tail = n - p"
    by (simp add: ema_values_length)
  have fixed: "?tail = replicate (n - p) (Fin v)" if "?seed = Fin v"
    unfolding that by (rule ema_values_fixed [OF assms(3)])
  have absorb: "(?seed # ?tail) ! j = Fin v"
    if "i \<le> j \<and> j \<le> n - p \<and> (?seed # ?tail) ! i = Fin v" for i j
    using that ema_values_absorbing [OF assms(3), of i j "n - p" ?seed m] by blast
  from res len fixed absorb show ?thesis by blast
qed

lemma rnd_two: "rnd (Fin 2) = Fin 2"
  using rnd_eval [of 2 1022 "1 / 2 ^ 51" "2 ^ 52" "2 ^ 52"] by (simp add: rne_def)

lemma rnd_four: "rnd (Fin 4) = Fin 4"
  using rnd_eval [of 4 1021 "1 / 2 ^ 50" "2 ^ 52" "2 ^ 52"] by (simp add: rne_def)

lemma rnd_six: "rnd (Fin 6) = Fin 6"
  using rnd_eval [of 6 1021 "1 / 2 ^ 50" "3 * 2 ^ 51" "3 * 2 ^ 51"] by (simp add: rne_def)

text \<open>
  The theorem at period 3 on five prices of value 2: the sums 2, 4 and 6 and the seed
  6 / 3 are exact, so every value from the seed on is 2.
\<close>

theorem getEMA_constant_series_witness:
  "(0::nat) < 3 \<and> (3::nat) \<le> 5 \<and> rnd (Fin 2) = Fin 2 \<and>
   d_div (foldl d_add (Fin 0) (replicate 3 (Fin 2))) (Fin (real 3)) = Fin 2 \<and>
   getEMA (replicate 5 (Fin 2)) 3 = Inr [Fin 0, Fin 0, Fin 2, Fin 2, Fin 2]"
proof -
  have seed: "d_div (foldl d_add (Fin 0) (replicate 3 (Fin 2))) (Fin (real 3)) = Fin 2"
    by (simp add: numeral_eq_Suc d_add_def d_div_def rnd_two rnd_four rnd_six
        del: rnd.simps)
  from getEMA_constant_series [of 3 5 2] rnd_two seed show ?thesis
    by (auto simp: numeral_eq_Suc simp del: rnd.simps)
qed

lemma rnd_tenth: "rnd (Fin dbl_tenth) = Fin dbl_tenth"
  unfolding dbl_tenth_def
  using rnd_eval [of "3602879701896397 / 2 ^ 55" 1027 "1 / 2 ^ 56" 7205759403792794
                     7205759403792794]
  by (simp add: rne_def)

lemma rnd_two_tenths: "rnd (Fin (dbl_tenth + dbl_tenth)) = Fin (7205759403792794 / 2 ^ 55)"
  unfolding dbl_tenth_def
  using rnd_eval [of "3602879701896397 / 2 ^ 55 + 3602879701896397 / 2 ^ 55" 1026 "1 / 2 ^ 55"
                     7205759403792794 7205759403792794]
  by (simp add: rne_def)

lemma rnd_three_tenths:
  "rnd (Fin (7205759403792794 / 2 ^ 55 + dbl_tenth)) = Fin (5404319552844596 / 2 ^ 54)"
  unfolding dbl_tenth_def
  using rnd_eval [of "7205759403792794 / 2 ^ 55 + 3602879701896397 / 2 ^ 55" 1025 "1 / 2 ^ 54"
                     "10808639105689191 / 2" 5404319552844596]
  by (simp add: rne_def)

lemma rnd_third: "rnd (Fin (5404319552844596 / 2 ^ 54 / 3)) = Fin (7205759403792795 / 2 ^ 56)"
  using rnd_eval [of "5404319552844596 / 2 ^ 54 / 3" 1027 "1 / 2 ^ 56"
                     "21617278211378384 / 3" 7205759403792795]
  by (simp add: rne_def)

lemma rnd_neg: "rnd (Fin (- x)) = js_neg (rnd (Fin x))"
  by (simp add: sgn_if)

lemma rnd_half: "rnd (Fin (1 / 2)) = Fin (1 / 2)"
  using rnd_eval [of "1 / 2" 1024 "1 / 2 ^ 53" "2 ^ 52" "2 ^ 52"] by (simp add: rne_def)

lemma rnd_gap: "rnd (Fin (1 / 2 ^ 56)) = Fin (1 / 2 ^ 56)"
  using rnd_eval [of "1 / 2 ^ 56" 1079 "1 / 2 ^ 108" "2 ^ 52" "2 ^ 52"] by (simp add: rne_def)

lemma rnd_half_gap: "rnd (Fin (1 / 2 ^ 57)) = Fin (1 / 2 ^ 57)"
  using rnd_eval [of "1 / 2 ^ 57" 1080 "1 / 2 ^ 109" "2 ^ 52" "2 ^ 52"] by (simp add: rne_def)

lemma rnd_back: "rnd (Fin (7205759403792795 / 2 ^ 56 - 1 / 2 ^ 57)) = Fin dbl_tenth"
  unfolding dbl_tenth_def
  using rnd_eval [of "7205759403792795 / 2 ^ 56 - 1 / 2 ^ 57" 1027 "1 / 2 ^ 56"
                     "14411518807585589 / 2" 7205759403792794]
  by (simp add: rne_def)

text \<open>The step of the recurrence from the seed above the price: a tie, rounded to the price.\<close>

lemma ema_step_from_seed:
  "d_add (d_mul (d_sub (Fin dbl_tenth) (Fin (7205759403792795 / 2 ^ 56))) (Fin (1 / 2)))
         (Fin (7205759403792795 / 2 ^ 56)) = Fin dbl_tenth"
proof -
  have a: "js_sub (Fin dbl_tenth) (Fin (7205759403792795 / 2 ^ 56)) = Fin (- (1 / 2 ^ 56))"
    by (simp add: dbl_tenth_def)
  have b: "d_sub (Fin dbl_tenth) (Fin (7205759403792795 / 2 ^ 56)) = Fin (- (1 / 2 ^ 56))"
    unfolding d_sub_def a rnd_neg rnd_gap by simp
  have c: "js_mul (Fin (- (1 / 2 ^ 56))) (Fin (1 / 2)) = Fin (- (1 / 2 ^ 57))"
    by simp
  have d: "d_mul (Fin (- (1 / 2 ^ 56))) (Fin (1 / 2)) = Fin (- (1 / 2 ^ 57))"
    unfolding d_mul_def c rnd_neg rnd_half_gap by simp
  have e: "js_add (Fin (- (1 / 2 ^ 57))) (Fin (7205759403792795 / 2 ^ 56)) =
           Fin (7205759403792795 / 2 ^ 56 - 1 / 2 ^ 57)"
    by simp
  show ?thesis
    unfolding b d d_add_def e by (rule rnd_back)
qed

text \<open>
  The claim as stated fails: on five prices equal to the double nearest to 0.1,
  \<open>3602879701896397 / 2^55\<close>, the sum of the first three rounds up and the seed of period
  3 is \<open>7205759403792795 / 2^56\<close> (0.10000000000000002), one spacing above the price; the
  two values after it are the price.
\<close>

theorem getEMA_seed_not_price:
  "rnd (Fin dbl_tenth) = Fin dbl_tenth \<and>
   getEMA [Fin dbl_tenth, Fin dbl_tenth, Fin dbl_tenth, Fin dbl_tenth, Fin dbl_tenth] 3 =
     Inr [Fin 0, Fin 0, Fin (7205759403792795 / 2 ^ 56), Fin dbl_tenth, Fin dbl_tenth] \<and>
   7205759403792795 / 2 ^ 56 \<noteq> dbl_tenth"
proof -
  have s1: "d_add (Fin 0) (Fin dbl_tenth) = Fin dbl_tenth"
    by (simp add: d_add_def rnd_tenth del: rnd.simps)
  have s2: "d_add (Fin dbl_tenth) (Fin dbl_tenth) = Fin (7205759403792794 / 2 ^ 55)"
    unfolding d_add_def js_add.simps by (rule rnd_two_tenths)
  have s3: "d_add (Fin (7205759403792794 / 2 ^ 55)) (Fin dbl_tenth) =
            Fin (5404319552844596 / 2 ^ 54)"
    unfolding d_add_def js_add.simps by (rule rnd_three_tenths)
  have tk: "take 3 [Fin dbl_tenth, Fin dbl_tenth, Fin dbl_tenth, Fin dbl_tenth, Fin dbl_tenth] =
            [Fin dbl_tenth, Fin dbl_tenth, Fin dbl_tenth]"
    by simp
  have sum: "foldl d_add (Fin 0) [Fin dbl_tenth, Fin dbl_tenth, Fin dbl_tenth] =
             Fin (5404319552844596 / 2 ^ 54)"
    by (simp only: foldl_Cons foldl_Nil s1 s2 s3)
  have seed: "d_div (Fin (5404319552844596 / 2 ^ 54)) (Fin (real 3)) =
              Fin (7205759403792795 / 2 ^ 56)"
    using rnd_third by (simp add: d_div_def del: rnd.simps)
  have mult: "d_div (Fin 2) (d_add (Fin (real 3)) (Fin 1)) = Fin (1 / 2)"
    by (simp add: d_add_def d_div_def rnd_four rnd_half del: rnd.simps)
  have dr: "drop 3 [Fin dbl_tenth, Fin dbl_tenth, Fin dbl_tenth, Fin dbl_tenth, Fin dbl_tenth] =
            [Fin dbl_tenth, Fin dbl_tenth]"
    by simp
  have rp: "replicate (3 - 1) (Fin 0) = [Fin 0, Fin 0]"
    by (simp add: numeral_eq_Suc)
  have loop: "ema_loop (Fin (1 / 2)) [Fin dbl_tenth, Fin dbl_tenth]
                ([Fin 0, Fin 0] @ [Fin (7205759403792795 / 2 ^ 56)]) =
              [Fin 0, Fin 0, Fin (7205759403792795 / 2 ^ 56), Fin dbl_tenth, Fin dbl_tenth]"
    by (simp only: ema_loop.simps last.simps list.distinct simp_thms if_True if_False
        ema_step_from_seed ema_step_fixed [OF rnd_tenth] append_Cons append_Nil)
  have "getEMA [Fin dbl_tenth, Fin dbl_tenth, Fin dbl_tenth, Fin dbl_tenth, Fin dbl_tenth] 3 =
        Inr [Fin 0, Fin 0, Fin (7205759403792795 / 2 ^ 56), Fin dbl_tenth, Fin dbl_tenth]"
    unfolding getEMA_def Let_def tk sum seed mult dr rp loop by simp
  moreover have "7205759403792795 / 2 ^ 56 \<noteq> dbl_tenth"
    by (simp add: dbl_tenth_def)
  ultimately show ?thesis using rnd_tenth by simp
qed

text \<open>
  Claim C3, as amended. On a series shorter than its lookback each indicator returns a
  fixed default: \<open>getEMA\<close> a zero for every price, \<open>calculateMACD\<close> zeros,
  \<open>calculateRSI\<close> the value 50, \<open>calculateBollingerBands\<close> zeros and the position
  \<open>middle\<close>, \<open>analyzeVolume\<close> zeros and the trend \<open>stable\<close>, and \<open>calculateAllIndicators\<close>
  on fewer than 30 candles the record \<open>getEmptyIndicators\<close>. The default 50 is also the
  value \<open>calculateRSI\<close> computes on fifteen prices that alternate between 1 and 2.
\<close>

theorem short_series_defaults:
  "(length prices < period \<longrightarrow> getEMA prices period = Inr (map (\<lambda>_. Fin 0) prices)) \<and>
   (length prices < 26 \<longrightarrow> calculateMACD prices =
      \<lparr>line = Fin 0, signal = Fin 0, histogram = Fin 0, previousHistogram = Fin 0\<rparr>) \<and>
   (length prices < 15 \<longrightarrow> calculateRSI prices = \<lparr>rsi_value = Fin 50\<rparr>) \<and>
   (length prices < 20 \<longrightarrow> calculateBollingerBands prices =
      \<lparr>upper = Fin 0, middle = Fin 0, lower = Fin 0, width = Fin 0, position = ''middle''\<rparr>) \<and>
   (length volumes < 10 \<longrightarrow> analyzeVolume volumes prices =
      \<lparr>current = Fin 0, average = Fin 0, trend = ''stable''\<rparr>) \<and>
   (length candles < 30 \<longrightarrow> calculateAllIndicators candles = getEmptyIndicators) \<and>
   calculateRSI [Fin 1, Fin 2, Fin 1, Fin 2, Fin 1, Fin 2, Fin 1, Fin 2, Fin 1, Fin 2,
                 Fin 1, Fin 2, Fin 1, Fin 2, Fin 1] = \<lparr>rsi_value = Fin 50\<rparr>"
proof -
  have "calculateRSI [Fin 1, Fin 2, Fin 1, Fin 2, Fin 1, Fin 2, Fin 1, Fin 2, Fin 1, Fin 2,
                      Fin 1, Fin 2, Fin 1, Fin 2, Fin 1] = \<lparr>rsi_value = Fin 50\<rparr>"
    by code_simp
  then show ?thesis
    by (simp add: getEMA_def calculateMACD_def calculateRSI_def calculateBollingerBands_def
        analyzeVolume_def calculateAllIndicators_def)
qed

text \<open>The theorem on the two prices 1, 2, with period 20, and on no candles.\<close>

theorem short_series_defaults_witness:
  "length [Fin 1, Fin 2] < (20::nat) \<and>
   getEMA [Fin 1, Fin 2] 20 = Inr [Fin 0, Fin 0] \<and>
   calculateMACD [Fin 1, Fin 2] =
      \<lparr>line = Fin 0, signal = Fin 0, histogram = Fin 0, previousHistogram = Fin 0\<rparr> \<and>
   calculateRSI [Fin 1, Fin 2] = \<lparr>rsi_value = Fin 50\<rparr> \<and>
   calculateBollingerBands [Fin 1, Fin 2] =
      \<lparr>upper = Fin 0, middle = Fin 0, lower = Fin 0, width = Fin 0, position = ''middle''\<rparr> \<and>
   analyzeVolume [Fin 1, Fin 2] [Fin 1, Fin 2] =
      \<lparr>current = Fin 0, average = Fin 0, trend = ''stable''\<rparr> \<and>
   calculateAllIndicators [] = getEmptyIndicators"
  using short_series_defaults [of "[Fin 1, Fin 2]" 20 "[Fin 1, Fin 2]" "[]"] by simp

text \<open>
  The claim as stated fails: the value 50 that \<open>calculateRSI\<close> returns on the two rising
  prices 1, 2 is the value it computes on fifteen prices that alternate between 1 and 2,
  and \<open>getEMA\<close> of period 2 returns a zero on the single price 5.
\<close>

theorem short_series_looks_computed:
  "length [Fin 1, Fin 2] < 14 + 1 \<and>
   calculateRSI [Fin 1, Fin 2] = \<lparr>rsi_value = Fin 50\<rparr> \<and>
   14 + 1 \<le> length [Fin 1, Fin 2, Fin 1, Fin 2, Fin 1, Fin 2, Fin 1, Fin 2, Fin 1, Fin 2,
                      Fin 1, Fin 2, Fin 1, Fin 2, Fin 1] \<and>
   calculateRSI [Fin 1, Fin 2, Fin 1, Fin 2, Fin 1, Fin 2, Fin 1, Fin 2, Fin 1, Fin 2,
                 Fin 1, Fin 2, Fin 1, Fin 2, Fin 1] = \<lparr>rsi_value = Fin 50\<rparr> \<and>
   getEMA [Fin 5] 2 = Inr [Fin 0]"
  by code_simp

lemma foldl_add_Fin: "foldl js_add (Fin a) (map Fin xs) = Fin (a + sum_list xs)"
  by (induction xs arbitrary: a) (simp_all add: algebra_simps)

lemma rsi_fold_no_loss:
  "\<forall>d \<in> set ds. 0 \<le> d \<Longrightarrow> 0 \<le> g \<Longrightarrow>
   \<exists>g'. foldl rsi_step (Fin g, Fin 0) (zip (map Fin ds) (replicate (length ds) (Fin 0))) =
           (Fin g', Fin 0) \<and> 0 \<le> g' \<and> (0 < g' \<longleftrightarrow> (0 < g \<or> (\<exists>d \<in> set ds. 0 < d)))"
proof (induction ds arbitrary: g)
  case Nil
  then show ?case by simp
next
  case (Cons d ds)
  have d: "0 \<le> d" and ds: "\<forall>d \<in> set ds. 0 \<le> d"
    using Cons.prems(1) by simp_all
  have step: "rsi_step (Fin g, Fin 0) (Fin d, Fin 0) = (Fin ((g * 13 + d) / 14), Fin 0)"
    by (simp add: rsi_step_def)
  have nn: "0 \<le> (g * 13 + d) / 14"
    using d Cons.prems(2) by simp
  from Cons.IH [OF ds nn] obtain g' where
    g': "foldl rsi_step (Fin ((g * 13 + d) / 14), Fin 0)
           (zip (map Fin ds) (replicate (length ds) (Fin 0))) = (Fin g', Fin 0)"
       "0 \<le> g'" "0 < g' \<longleftrightarrow> (0 < (g * 13 + d) / 14 \<or> (\<exists>d \<in> set ds. 0 < d))"
    by blast
  have "0 < (g * 13 + d) / 14 \<longleftrightarrow> (0 < g \<or> 0 < d)"
    using d Cons.prems(2) by (auto simp: add_nonneg_pos add_pos_nonneg)
  with g' show ?case
    by (auto simp: step)
qed

lemma gains_nonneg:
  "\<forall>d \<in> set ds. 0 \<le> d \<Longrightarrow>
   map (\<lambda>change. if js_gt change (Fin 0) then change else Fin 0) (map Fin ds) = map Fin ds"
  by (induction ds) (auto simp: js_gt_def)

lemma losses_nonneg:
  "\<forall>d \<in> set ds. 0 \<le> d \<Longrightarrow>
   map (\<lambda>change. if js_lt change (Fin 0) then js_abs change else Fin 0) (map Fin ds) =
     replicate (length ds) (Fin 0)"
  by (induction ds) auto

lemma rsi_value_of_averages:
  "0 \<le> g \<Longrightarrow>
   js_sub (Fin 100) (js_div (Fin 100) (js_add (Fin 1) (js_div (Fin g) (Fin 0)))) =
     (if 0 < g then Fin 100 else NaN)"
  by (simp add: js_sub_def)

text \<open>
  On at least 15 finite prices none of which is below the one before it, the average loss
  is zero: \<open>calculateRSI\<close> returns 100 if some price is above the one before it (the
  division gives \<open>Infinity\<close>), and \<open>NaN\<close> if all prices are equal (the division is 0 / 0).
\<close>

lemma calculateRSI_no_loss:
  assumes len: "15 \<le> length ps"
    and mono: "\<forall>i. Suc i < length ps \<longrightarrow> ps ! i \<le> ps ! Suc i"
  shows "calculateRSI (map Fin ps) =
           \<lparr>rsi_value = (if \<exists>i. Suc i < length ps \<and> ps ! i < ps ! Suc i then Fin 100 else NaN)\<rparr>"
proof -
  define ds where "ds = map (\<lambda>i. ps ! i - ps ! (i - 1)) [1..<length ps]"
  have changes: "map (\<lambda>i. js_sub (map Fin ps ! i) (map Fin ps ! (i - 1))) [1..<length (map Fin ps)] =
                 map Fin ds"
    by (simp add: ds_def less_imp_diff_less)
  have nonneg: "\<forall>d \<in> set ds. 0 \<le> d"
  proof
    fix d assume "d \<in> set ds"
    then obtain i where i: "1 \<le> i" "i < length ps" "d = ps ! i - ps ! (i - 1)"
      by (auto simp: ds_def)
    then have "Suc (i - 1) < length ps" by simp
    with mono have "ps ! (i - 1) \<le> ps ! Suc (i - 1)" by blast
    with i show "0 \<le> d" by simp
  qed
  have gains: "map (\<lambda>change. if js_gt change (Fin 0) then change else Fin 0) (map Fin ds) = map Fin ds"
    using nonneg by (rule gains_nonneg)
  have losses: "map (\<lambda>change. if js_lt change (Fin 0) then js_abs change else Fin 0) (map Fin ds) =
                replicate (length ds) (Fin 0)"
    using nonneg by (rule losses_nonneg)
  have avgGain: "js_div (foldl js_add (Fin 0) (take 14 (map Fin ds))) (Fin 14) =
                 Fin (sum_list (take 14 ds) / 14)"
    by (simp add: take_map foldl_add_Fin)
  have avgLoss: "js_div (foldl js_add (Fin 0) (take 14 (replicate (length ds) (Fin 0)))) (Fin 14) = Fin 0"
    by (simp add: foldl_add_replicate)
  have rest: "drop 14 (zip (map Fin ds) (replicate (length ds) (Fin 0))) =
              zip (map Fin (drop 14 ds)) (replicate (length (drop 14 ds)) (Fin 0))"
    by (simp add: drop_zip drop_map)
  have nn_take: "\<forall>d \<in> set (take 14 ds). 0 \<le> d"
    using nonneg in_set_takeD by fast
  have nn_drop: "\<forall>d \<in> set (drop 14 ds). 0 \<le> d"
    using nonneg in_set_dropD by fast
  have s0: "0 \<le> sum_list (take 14 ds)"
    using nn_take by (intro sum_list_nonneg) blast
  then have g0: "0 \<le> sum_list (take 14 ds) / 14"
    by simp
  from rsi_fold_no_loss [OF nn_drop g0] obtain g' where
    g': "foldl rsi_step (Fin (sum_list (take 14 ds) / 14), Fin 0)
           (zip (map Fin (drop 14 ds)) (replicate (length (drop 14 ds)) (Fin 0))) = (Fin g', Fin 0)"
       "0 \<le> g'"
       "0 < g' \<longleftrightarrow> (0 < sum_list (take 14 ds) / 14 \<or> (\<exists>d \<in> set (drop 14 ds). 0 < d))"
    by blast
  have "sum_list (take 14 ds) = 0 \<longleftrightarrow> (\<forall>d \<in> set (take 14 ds). d = 0)"
    using nn_take by (intro sum_list_nonneg_eq_0_iff) blast
  with s0 nn_take have tk: "0 < sum_list (take 14 ds) \<longleftrightarrow> (\<exists>d \<in> set (take 14 ds). 0 < d)"
    by (metis less_eq_real_def not_less)
  have setds: "set ds = set (take 14 ds) \<union> set (drop 14 ds)"
    by (metis append_take_drop_id set_append)
  have pos: "0 < g' \<longleftrightarrow> (\<exists>d \<in> set ds. 0 < d)"
    unfolding setds bex_Un using g'(3) tk by simp
  have rise: "(\<exists>d \<in> set ds. 0 < d) \<longleftrightarrow> (\<exists>i. Suc i < length ps \<and> ps ! i < ps ! Suc i)"
  proof
    assume "\<exists>d \<in> set ds. 0 < d"
    then obtain i where i: "1 \<le> i" "i < length ps" "0 < ps ! i - ps ! (i - 1)"
      by (auto simp: ds_def)
    then have "Suc (i - 1) < length ps \<and> ps ! (i - 1) < ps ! Suc (i - 1)" by simp
    then show "\<exists>i. Suc i < length ps \<and> ps ! i < ps ! Suc i" by blast
  next
    assume "\<exists>i. Suc i < length ps \<and> ps ! i < ps ! Suc i"
    then obtain i where i: "Suc i < length ps" "ps ! i < ps ! Suc i" by blast
    then have "Suc i \<in> set [1..<length ps]"
      by simp
    then have "ps ! Suc i - ps ! (Suc i - 1) \<in> set ds"
      unfolding ds_def set_map by (rule imageI)
    with i(2) show "\<exists>d \<in> set ds. 0 < d"
      by (intro bexI [where x = "ps ! Suc i - ps ! (Suc i - 1)"]) simp_all
  qed
  have "calculateRSI (map Fin ps) =
        \<lparr>rsi_value = js_sub (Fin 100) (js_div (Fin 100) (js_add (Fin 1) (js_div (Fin g') (Fin 0))))\<rparr>"
    using len unfolding calculateRSI_def Let_def changes gains losses avgGain avgLoss rest g'(1)
    by simp
  then show ?thesis
    unfolding rsi_value_of_averages [OF g'(2)] pos rise .
qed

text \<open>
  Claim C4, at a failing input. On fifteen equal prices every change is zero, so the
  average loss is zero (and so is the average gain): \<open>calculateRSI\<close> divides zero by zero
  and returns \<open>NaN\<close>, not 100.
\<close>

theorem calculateRSI_flat_series_NaN:
  "calculateRSI (replicate 15 (Fin 1)) = \<lparr>rsi_value = NaN\<rparr>"
  by code_simp

text \<open>
  The fields of the Bollinger result on at least 20 prices, in terms of the mean and the
  standard deviation of the last 20.
\<close>

lemma calculateBollingerBands_fields:
  assumes "20 \<le> length prices"
  shows "middle (calculateBollingerBands prices) = smaAt prices (length prices - 1)"
    "upper (calculateBollingerBands prices) =
       js_add (smaAt prices (length prices - 1))
         (js_mul (Fin 2) (stdDevAt prices (smaAt prices (length prices - 1)) (length prices - 1)))"
    "lower (calculateBollingerBands prices) =
       js_sub (smaAt prices (length prices - 1))
         (js_mul (Fin 2) (stdDevAt prices (smaAt prices (length prices - 1)) (length prices - 1)))"
    "position (calculateBollingerBands prices) =
       (if js_ge (prices ! (length prices - 1)) (upper (calculateBollingerBands prices))
        then ''upper''
        else if js_le (prices ! (length prices - 1)) (lower (calculateBollingerBands prices))
        then ''lower''
        else ''middle'')"
proof -
  obtain m where n: "length prices = 20 + m"
    using assms le_Suc_ex by blast
  have a: "length prices - 19 - 1 = m" "length prices - 1 = 19 + m" "length prices - 19 = Suc m"
      "length prices - Suc 0 = 19 + m" "length prices - 20 = m"
    using n by simp_all
  have b: "[0..<Suc m] ! m = m" "[19..<length prices] ! m = 19 + m"
    using n nth_upt [of 0 m "Suc m"] nth_upt [of 19 m "length prices"] by simp_all
  have c: "m < length [19..<length prices]" "m < length [0..<Suc m]"
    using n by simp_all
  show "middle (calculateBollingerBands prices) = smaAt prices (length prices - 1)"
    using assms c unfolding calculateBollingerBands_def Let_def
    by (simp add: a b nth_map del: upt_Suc nth_upt)
  show "upper (calculateBollingerBands prices) =
       js_add (smaAt prices (length prices - 1))
         (js_mul (Fin 2) (stdDevAt prices (smaAt prices (length prices - 1)) (length prices - 1)))"
    using assms c unfolding calculateBollingerBands_def Let_def
    by (simp add: a b nth_map del: upt_Suc nth_upt)
  show "lower (calculateBollingerBands prices) =
       js_sub (smaAt prices (length prices - 1))
         (js_mul (Fin 2) (stdDevAt prices (smaAt prices (length prices - 1)) (length prices - 1)))"
    using assms c unfolding calculateBollingerBands_def Let_def
    by (simp add: a b nth_map del: upt_Suc nth_upt)
  show "position (calculateBollingerBands prices) =
       (if js_ge (prices ! (length prices - 1)) (upper (calculateBollingerBands prices))
        then ''upper''
        else if js_le (prices ! (length prices - 1)) (lower (calculateBollingerBands prices))
        then ''lower''
        else ''middle'')"
    using assms by (simp add: calculateBollingerBands_def Let_def)
qed

lemma smaAt_constant: "i < n \<Longrightarrow> smaAt (replicate n (Fin v)) i = Fin v"
proof -
  assume "i < n"
  then have "map (\<lambda>j. replicate n (Fin v) ! (i - j)) [0..<20] = map (\<lambda>j. Fin v) [0..<20]"
    by (intro map_cong) (simp_all add: less_imp_diff_less)
  then have "map (\<lambda>j. replicate n (Fin v) ! (i - j)) [0..<20] = replicate 20 (Fin v)"
    by (simp only: map_replicate_const length_upt) simp
  then show ?thesis
    by (simp add: smaAt_def foldl_add_replicate)
qed

lemma stdDevAt_constant: "i < n \<Longrightarrow> stdDevAt (replicate n (Fin v)) (Fin v) i = Fin 0"
proof -
  assume "i < n"
  then have "map (\<lambda>j. js_mul (js_sub (replicate n (Fin v) ! (i - j)) (Fin v))
                               (js_sub (replicate n (Fin v) ! (i - j)) (Fin v))) [0..<20] =
             map (\<lambda>j. Fin 0) [0..<20]"
    by (intro map_cong) (simp_all add: less_imp_diff_less)
  then have "map (\<lambda>j. js_mul (js_sub (replicate n (Fin v) ! (i - j)) (Fin v))
                               (js_sub (replicate n (Fin v) ! (i - j)) (Fin v))) [0..<20] =
             replicate 20 (Fin 0)"
    by (simp only: map_replicate_const length_upt) simp
  then show ?thesis
    by (simp add: stdDevAt_def foldl_add_replicate)
qed

lemma zigzag_sma: "smaAt zigzag 19 = Fin 2"
  by code_simp

lemma zigzag_variance:
  "js_div (foldl js_add (Fin 0)
             (map (\<lambda>j. js_mul (js_sub (zigzag ! (19 - j)) (Fin 2))
                               (js_sub (zigzag ! (19 - j)) (Fin 2))) [0..<20]))
          (Fin 20) = Fin 1"
  by code_simp

lemma zigzag_stdDev: "stdDevAt zigzag (Fin 2) 19 = Fin 1"
  unfolding stdDevAt_def zigzag_variance by simp

lemma zigzag_last: "length zigzag = 20" "zigzag ! 19 = Fin 3"
  by (simp_all add: zigzag_def)

text \<open>
  Claim C9, as amended. On at least 20 prices, with \<open>middle\<close> the mean of the last 20 and
  the bands at \<open>middle + 2 * stddev\<close> and \<open>middle - 2 * stddev\<close>, the position is \<open>upper\<close> if and only if the last
  close is \<open>\<ge>\<close> the upper band; it is \<open>lower\<close> if and only if the last close is not \<open>\<ge>\<close>
  the upper band and is \<open>\<le>\<close> the lower band; it is \<open>middle\<close> otherwise. Both boundaries
  are inclusive, and the upper band is tested first.
\<close>

theorem calculateBollingerBands_position:
  assumes "20 \<le> length prices"
  shows "(position (calculateBollingerBands prices) = ''upper'') =
           js_ge (prices ! (length prices - 1)) (upper (calculateBollingerBands prices)) \<and>
         (position (calculateBollingerBands prices) = ''lower'') =
           (\<not> js_ge (prices ! (length prices - 1)) (upper (calculateBollingerBands prices)) \<and>
            js_le (prices ! (length prices - 1)) (lower (calculateBollingerBands prices))) \<and>
         (position (calculateBollingerBands prices) = ''middle'') =
           (\<not> js_ge (prices ! (length prices - 1)) (upper (calculateBollingerBands prices)) \<and>
            \<not> js_le (prices ! (length prices - 1)) (lower (calculateBollingerBands prices))) \<and>
         middle (calculateBollingerBands prices) = smaAt prices (length prices - 1) \<and>
         upper (calculateBollingerBands prices) =
           js_add (middle (calculateBollingerBands prices))
             (js_mul (Fin 2)
                (stdDevAt prices (middle (calculateBollingerBands prices)) (length prices - 1))) \<and>
         lower (calculateBollingerBands prices) =
           js_sub (middle (calculateBollingerBands prices))
             (js_mul (Fin 2)
                (stdDevAt prices (middle (calculateBollingerBands prices)) (length prices - 1)))"
  using calculateBollingerBands_fields [OF assms] by simp

text \<open>
  The theorem on twenty prices that alternate between 1 and 3: the mean is 2, the
  standard deviation 1, the bands 4 and 0, and the last close 3 is in the middle.
\<close>

theorem calculateBollingerBands_position_witness:
  "20 \<le> length zigzag \<and>
   middle (calculateBollingerBands zigzag) = Fin 2 \<and>
   upper (calculateBollingerBands zigzag) = Fin 4 \<and>
   lower (calculateBollingerBands zigzag) = Fin 0 \<and>
   position (calculateBollingerBands zigzag) = ''middle''"
proof -
  have h: "20 \<le> length zigzag"
    by (simp add: zigzag_last)
  from calculateBollingerBands_position [OF h] h show ?thesis
    by (simp add: zigzag_last zigzag_sma zigzag_stdDev js_ge_def)
qed

text \<open>
  The claim as stated fails on twenty equal prices: the standard deviation is 0, both
  bands are at the price, the last close is \<open>\<le>\<close> the lower band, and the position is
  \<open>upper\<close>, not \<open>lower\<close>.
\<close>

theorem calculateBollingerBands_flat_is_upper:
  "position (calculateBollingerBands (replicate 20 (Fin 1))) = ''upper'' \<and>
   lower (calculateBollingerBands (replicate 20 (Fin 1))) = Fin 1 \<and>
   js_le (replicate 20 (Fin 1) ! (length (replicate 20 (Fin 1)) - 1))
         (lower (calculateBollingerBands (replicate 20 (Fin 1))))"
proof -
  have h: "20 \<le> length (replicate 20 (Fin 1))" by simp
  have up: "upper (calculateBollingerBands (replicate 20 (Fin 1))) = Fin 1"
    by (simp add: calculateBollingerBands_fields(2) [OF h] smaAt_constant stdDevAt_constant)
  have lo: "lower (calculateBollingerBands (replicate 20 (Fin 1))) = Fin 1"
    by (simp add: calculateBollingerBands_fields(3) [OF h] smaAt_constant stdDevAt_constant)
  have "position (calculateBollingerBands (replicate 20 (Fin 1))) = ''upper''"
    unfolding calculateBollingerBands_fields(4) [OF h] up lo by (simp add: js_ge_def)
  with lo show ?thesis by simp
qed

end
